theory Spec2Isabelle
  imports Complex_Main "HOL-Library.AList" "HOL-Library.Sublist" "HOL-Library.List_Lexorder"
    "HOL-Library.Multiset"
begin

section \<open>Python values used by checkin.py\<close>

text \<open>
  A Python \<open>str\<close> is a sequence of Unicode code points, so it is modelled as a list of
  code points: \<open>len\<close> is \<open>length\<close> and the slice \<open>[:50]\<close> is \<open>take 50\<close>. The fixed
  messages of the source are Chinese text and are written out as code points.
\<close>

type_synonym pystr = "nat list"

definition ascii :: "string \<Rightarrow> pystr" where
  "ascii cs = map of_char cs"

text \<open>Decimal rendering of an integer inside an f-string.\<close>

function dec :: "nat \<Rightarrow> pystr" where
  "dec n = (if n < 10 then [48 + n] else dec (n div 10) @ [48 + n mod 10])"
  by pat_completeness auto
termination
  by (relation "measure id") auto

declare dec.simps [simp del]

definition str_int :: "int \<Rightarrow> pystr" where
  "str_int i = (if i < 0 then 45 # dec (nat (- i)) else dec (nat i))"

text \<open>
  \<open>str.lower()\<close>, as far as the test \<open>'success' in text.lower()\<close> can see it: the only
  code points that lower-case to one of the letters of \<open>success\<close> are the ASCII capitals.
\<close>

definition lower_cp :: "nat \<Rightarrow> nat" where
  "lower_cp c = (if 65 \<le> c \<and> c \<le> 90 then c + 32 else c)"

definition py_lower :: "pystr \<Rightarrow> pystr" where
  "py_lower t = map lower_cp t"

text \<open>\<open>a in b\<close> on strings: \<open>a\<close> occurs in \<open>b\<close> as a contiguous run.\<close>

definition str_in :: "pystr \<Rightarrow> pystr \<Rightarrow> bool" where
  "str_in a b = sublist a b"

text \<open>
  A Python \<open>float\<close>: a finite value, an infinity or a NaN. What makes the finite values
  binary64 numbers is the rounding of the results of arithmetic, which the hardware does
  and the functions below take as the parameter \<open>rnd\<close>: the value of an exact result
  after rounding to nearest, an infinity when it overflows. The sign of a zero is not
  kept.
\<close>

datatype pyfloat = Fin real | PInf | NInf | NaN

fun fneg :: "pyfloat \<Rightarrow> pyfloat" where
  "fneg (Fin a) = Fin (- a)"
| "fneg PInf = NInf"
| "fneg NInf = PInf"
| "fneg NaN = NaN"

fun fadd :: "(real \<Rightarrow> pyfloat) \<Rightarrow> pyfloat \<Rightarrow> pyfloat \<Rightarrow> pyfloat" where
  "fadd rnd (Fin a) (Fin b) = rnd (a + b)"
| "fadd rnd (Fin a) PInf = PInf"
| "fadd rnd (Fin a) NInf = NInf"
| "fadd rnd (Fin a) NaN = NaN"
| "fadd rnd PInf (Fin b) = PInf"
| "fadd rnd PInf PInf = PInf"
| "fadd rnd PInf NInf = NaN"
| "fadd rnd PInf NaN = NaN"
| "fadd rnd NInf (Fin b) = NInf"
| "fadd rnd NInf PInf = NaN"
| "fadd rnd NInf NInf = NInf"
| "fadd rnd NInf NaN = NaN"
| "fadd rnd NaN y = NaN"

definition fsub :: "(real \<Rightarrow> pyfloat) \<Rightarrow> pyfloat \<Rightarrow> pyfloat \<Rightarrow> pyfloat" where
  "fsub rnd x y = fadd rnd x (fneg y)"

text \<open>The tests \<open>x != 0\<close>, \<open>x > 0\<close> and \<open>x < 0\<close> on a float; a NaN differs from everything.\<close>

fun f_nonzero :: "pyfloat \<Rightarrow> bool" where
  "f_nonzero (Fin a) = (a \<noteq> 0)"
| "f_nonzero PInf = True"
| "f_nonzero NInf = True"
| "f_nonzero NaN = True"

fun f_pos :: "pyfloat \<Rightarrow> bool" where
  "f_pos (Fin a) = (a > 0)"
| "f_pos PInf = True"
| "f_pos NInf = False"
| "f_pos NaN = False"

fun f_neg :: "pyfloat \<Rightarrow> bool" where
  "f_neg (Fin a) = (a < 0)"
| "f_neg PInf = False"
| "f_neg NInf = True"
| "f_neg NaN = False"

text \<open>
  The value \<open>json.loads\<close> returns. An object is the parsed \<open>dict\<close>, kept as an
  association list and read with \<open>map_of\<close>. A number written with a fraction or an
  exponent is a float (\<open>1e999\<close> is an infinity, and \<open>NaN\<close> and \<open>Infinity\<close> are accepted);
  any other number is an unbounded \<open>int\<close>.
\<close>

datatype json =
    JNull
  | JBool bool
  | JInt int
  | JFloat pyfloat
  | JStr pystr
  | JArr "json list"
  | JObj "(pystr \<times> json) list"

text \<open>Truth value of a Python object in \<open>if x:\<close>.\<close>

fun truthy :: "json \<Rightarrow> bool" where
  "truthy JNull = False"
| "truthy (JBool b) = b"
| "truthy (JInt i) = (i \<noteq> 0)"
| "truthy (JFloat f) = f_nonzero f"
| "truthy (JStr s) = (s \<noteq> [])"
| "truthy (JArr xs) = (xs \<noteq> [])"
| "truthy (JObj kvs) = (kvs \<noteq> [])"

text \<open>\<open>x == n\<close> for an integer literal \<open>n\<close>: \<open>True == 1\<close> and \<open>1.0 == 1\<close> hold in Python.\<close>

fun py_eq_int :: "json \<Rightarrow> int \<Rightarrow> bool" where
  "py_eq_int (JBool b) n = ((if b then 1 else 0) = n)"
| "py_eq_int (JInt i) n = (i = n)"
| "py_eq_int (JFloat (Fin r)) n = (r = of_int n)"
| "py_eq_int _ n = False"

text \<open>
  Exceptions, by what the source tells apart: \<open>httpx.HTTPStatusError\<close> with the status of
  its response, and every other subclass of \<open>Exception\<close>; both with \<open>str(e)\<close>. The
  handlers of the module catch \<open>Exception\<close>; what is not one (\<open>KeyboardInterrupt\<close>, a
  cancelled task) ends the run and is not modelled.
\<close>

datatype exn =
    HTTPStatusError int pystr
  | OtherError pystr

fun exn_str :: "exn \<Rightarrow> pystr" where
  "exn_str (HTTPStatusError code t) = t"
| "exn_str (OtherError t) = t"

fun type_name :: "json \<Rightarrow> pystr" where
  "type_name JNull = ascii ''NoneType''"
| "type_name (JBool b) = ascii ''bool''"
| "type_name (JInt i) = ascii ''int''"
| "type_name (JFloat f) = ascii ''float''"
| "type_name (JStr s) = ascii ''str''"
| "type_name (JArr xs) = ascii ''list''"
| "type_name (JObj kvs) = ascii ''dict''"

text \<open>\<open>x.get(k)\<close>: only a dict has the method; on anything else Python raises AttributeError.\<close>

definition attribute_error :: "json \<Rightarrow> exn" where
  "attribute_error j =
     OtherError ([39] @ type_name j @ [39] @ ascii '' object has no attribute '' @
                 [39] @ ascii ''get'' @ [39])"

text \<open>
  Arithmetic on loaded values. \<open>bool\<close> is a subclass of \<open>int\<close>; an \<open>int\<close> that meets a
  float is converted first, which raises OverflowError when it is too large. The
  messages are those of the interpreter.
\<close>

definition unsupported_operand :: "pystr \<Rightarrow> json \<Rightarrow> json \<Rightarrow> exn" where
  "unsupported_operand opr x y =
     OtherError (ascii ''unsupported operand type(s) for '' @ opr @ ascii '': '' @
                 [39] @ type_name x @ [39] @ ascii '' and '' @ [39] @ type_name y @ [39])"

definition cannot_concatenate :: "json \<Rightarrow> json \<Rightarrow> exn" where
  "cannot_concatenate x y =
     OtherError (ascii ''can only concatenate '' @ type_name x @ ascii '' (not '' @
                 [34] @ type_name y @ [34] @ ascii '') to '' @ type_name x)"

definition int_too_large :: exn where
  "int_too_large = OtherError (ascii ''int too large to convert to float'')"

definition division_too_large :: exn where
  "division_too_large = OtherError (ascii ''integer division result too large for a float'')"

definition rounded_too_large :: exn where
  "rounded_too_large = OtherError (ascii ''rounded value too large to represent'')"

datatype pynum = PInt int | PFloat pyfloat

fun as_num :: "json \<Rightarrow> pynum option" where
  "as_num (JInt i) = Some (PInt i)"
| "as_num (JBool b) = Some (PInt (if b then 1 else 0))"
| "as_num (JFloat f) = Some (PFloat f)"
| "as_num _ = None"

fun to_float :: "(real \<Rightarrow> pyfloat) \<Rightarrow> pynum \<Rightarrow> exn + pyfloat" where
  "to_float rnd (PFloat f) = Inr f"
| "to_float rnd (PInt i) =
     (case rnd (of_int i) of Fin x \<Rightarrow> Inr (Fin x) | _ \<Rightarrow> Inl int_too_large)"

fun num_add :: "(real \<Rightarrow> pyfloat) \<Rightarrow> pynum \<Rightarrow> pynum \<Rightarrow> exn + json" where
  "num_add rnd (PInt a) (PInt b) = Inr (JInt (a + b))"
| "num_add rnd a b =
     (case to_float rnd a of
        Inl e \<Rightarrow> Inl e
      | Inr f \<Rightarrow>
          (case to_float rnd b of
             Inl e \<Rightarrow> Inl e
           | Inr g \<Rightarrow> Inr (JFloat (fadd rnd f g))))"

text \<open>\<open>x + y\<close>: numbers add, two strings or two lists concatenate, anything else raises.\<close>

definition py_add :: "(real \<Rightarrow> pyfloat) \<Rightarrow> json \<Rightarrow> json \<Rightarrow> exn + json" where
  "py_add rnd x y =
     (case as_num x of
        Some a \<Rightarrow>
          (case as_num y of
             Some b \<Rightarrow> num_add rnd a b
           | None \<Rightarrow> Inl (unsupported_operand (ascii ''+'') x y))
      | None \<Rightarrow>
          (case x of
             JStr s \<Rightarrow>
               (case y of JStr t \<Rightarrow> Inr (JStr (s @ t)) | _ \<Rightarrow> Inl (cannot_concatenate x y))
           | JArr s \<Rightarrow>
               (case y of JArr t \<Rightarrow> Inr (JArr (s @ t)) | _ \<Rightarrow> Inl (cannot_concatenate x y))
           | _ \<Rightarrow> Inl (unsupported_operand (ascii ''+'') x y)))"

text \<open>\<open>f - y\<close> for a float \<open>f\<close>.\<close>

definition py_float_sub :: "(real \<Rightarrow> pyfloat) \<Rightarrow> pyfloat \<Rightarrow> json \<Rightarrow> exn + pyfloat" where
  "py_float_sub rnd f y =
     (case as_num y of
        Some b \<Rightarrow>
          (case to_float rnd b of Inl e \<Rightarrow> Inl e | Inr g \<Rightarrow> Inr (fsub rnd f g))
      | None \<Rightarrow> Inl (unsupported_operand (ascii ''-'') (JFloat f) y))"

text \<open>
  \<open>v / 500000\<close>: the quotient of two integers is rounded once and raises OverflowError
  when it is too large; a float is divided as a float.
\<close>

definition py_truediv_500000 :: "(real \<Rightarrow> pyfloat) \<Rightarrow> json \<Rightarrow> exn + pyfloat" where
  "py_truediv_500000 rnd v =
     (case as_num v of
        Some (PInt i) \<Rightarrow>
          (case rnd (of_int i / 500000) of
             Fin x \<Rightarrow> Inr (Fin x)
           | _ \<Rightarrow> Inl division_too_large)
      | Some (PFloat f) \<Rightarrow> Inr (case f of Fin a \<Rightarrow> rnd (a / 500000) | _ \<Rightarrow> f)
      | None \<Rightarrow> Inl (unsupported_operand (ascii ''/'') v (JInt 500000)))"

text \<open>
  \<open>round(x, 2)\<close>: the exact value of the float is rounded to two decimals, ties to the
  even digit, and the decimal is read back as a float. Infinities and NaN round to
  themselves.
\<close>

definition round_half_even :: "real \<Rightarrow> int" where
  "round_half_even x =
     (let f = \<lfloor>x\<rfloor>; d = x - of_int f
      in if d < 1 / 2 then f else if d > 1 / 2 then f + 1 else if even f then f else f + 1)"

definition py_round2 :: "(real \<Rightarrow> pyfloat) \<Rightarrow> pyfloat \<Rightarrow> exn + pyfloat" where
  "py_round2 rnd f =
     (case f of
        Fin x \<Rightarrow>
          (case rnd (of_int (round_half_even (x * 100)) / 100) of
             Fin y \<Rightarrow> Inr (Fin y)
           | _ \<Rightarrow> Inl rounded_too_large)
      | _ \<Rightarrow> Inr f)"

text \<open>\<open>round(v / 500000, 2)\<close>.\<close>

definition scale_quota :: "(real \<Rightarrow> pyfloat) \<Rightarrow> json \<Rightarrow> exn + pyfloat" where
  "scale_quota rnd v =
     (case py_truediv_500000 rnd v of Inl e \<Rightarrow> Inl e | Inr f \<Rightarrow> py_round2 rnd f)"

text \<open>
  \<open>str(x)\<close> inside an f-string. A string is rendered as itself; the rendering of the
  other values is Python's own and is taken as the parameter \<open>repr\<close>.
\<close>

fun py_str :: "(json \<Rightarrow> pystr) \<Rightarrow> json \<Rightarrow> pystr" where
  "py_str repr (JStr s) = s"
| "py_str repr j = repr j"

section \<open>HTTP responses and balances\<close>

record response =
  status_code :: int
  body_text :: pystr
  resp_json :: "exn + json"

text \<open>
  \<open>resp_json\<close> is what \<open>response.json()\<close> gives for the body \<open>body_text\<close>: the parsed value,
  or the exception the parser raises.
\<close>

record balance =
  quota :: pyfloat
  used :: pyfloat

definition dict_get_default :: "(pystr \<times> json) list \<Rightarrow> pystr \<Rightarrow> json \<Rightarrow> json" where
  "dict_get_default kvs k d = (case map_of kvs k of None \<Rightarrow> d | Some v \<Rightarrow> v)"

text \<open>
  The lines of step 1 that read the body of \<open>/api/user/self\<close>: the balance, \<open>None\<close> when
  the \<open>success\<close> flag is not truthy, or the exception that a value of the wrong shape
  raises.
\<close>

definition balance_of_user_data :: "(real \<Rightarrow> pyfloat) \<Rightarrow> json \<Rightarrow> exn + balance option" where
  "balance_of_user_data rnd user_data =
     (case user_data of
        JObj kvs \<Rightarrow>
          (if (case map_of kvs (ascii ''success'') of None \<Rightarrow> False | Some v \<Rightarrow> truthy v) then
             (case dict_get_default kvs (ascii ''data'') (JObj []) of
                JObj d \<Rightarrow>
                  (case scale_quota rnd (dict_get_default d (ascii ''quota'') (JInt 0)) of
                     Inl e \<Rightarrow> Inl e
                   | Inr q \<Rightarrow>
                       (case scale_quota rnd (dict_get_default d (ascii ''used_quota'') (JInt 0)) of
                          Inl e \<Rightarrow> Inl e
                        | Inr u \<Rightarrow> Inr (Some \<lparr>quota = q, used = u\<rparr>)))
              | data \<Rightarrow> Inl (attribute_error data))
           else Inr None)
      | _ \<Rightarrow> Inl (attribute_error user_data))"

text \<open>
  Step 1 of both check-in functions: the GET of \<open>/api/user/self\<close>. Everything in it runs
  inside \<open>try ... except Exception\<close>, so every exception leaves \<open>balance = None\<close>.
\<close>

definition fetch_balance :: "(real \<Rightarrow> pyfloat) \<Rightarrow> exn + response \<Rightarrow> balance option" where
  "fetch_balance rnd user_response =
     (case user_response of
        Inl e \<Rightarrow> None
      | Inr r \<Rightarrow>
          (if status_code r = 200 then
             (case resp_json r of
                Inl e \<Rightarrow> None
              | Inr user_data \<Rightarrow>
                  (case balance_of_user_data rnd user_data of
                     Inl e \<Rightarrow> None
                   | Inr bal \<Rightarrow> bal))
           else None))"

section \<open>The sign-in request\<close>

definition msg_checkin_ok :: pystr where
  "msg_checkin_ok = [31614, 21040, 25104, 21151]"

definition msg_checkin_failed :: pystr where
  "msg_checkin_failed = [31614, 21040, 22833, 36133, 58, 32]"

definition msg_format_error :: pystr where
  "msg_format_error = msg_checkin_failed @ [21709, 24212, 26684, 24335, 38169, 35823]"

definition msg_unknown_error :: pystr where
  "msg_unknown_error = [26410, 30693, 38169, 35823]"

definition msg_keepalive_ok :: pystr where
  "msg_keepalive_ok =
     [20445, 27963, 25104, 21151, 65288, 26080, 31614, 21040, 25509, 21475, 65289]"

definition msg_keepalive_failed :: pystr where
  "msg_keepalive_failed =
     [20445, 27963, 22833, 36133, 58, 32, 26080, 27861, 33719, 21462, 29992, 25143,
      20449, 24687]"

definition msg_request_failed :: pystr where
  "msg_request_failed = [35831, 27714, 22833, 36133, 58, 32]"

definition msg_request_exception :: pystr where
  "msg_request_exception = [35831, 27714, 24322, 24120, 58, 32]"

definition msg_checkin_exception :: pystr where
  "msg_checkin_exception = [31614, 21040, 24322, 24120, 58, 32]"

definition msg_http_status :: "int \<Rightarrow> pystr" where
  "msg_http_status code = msg_checkin_failed @ ascii ''HTTP '' @ str_int code"

type_synonym outcome = "bool \<times> pystr \<times> balance option"

text \<open>
  The verdict on a parsed sign-in body, the three lines
  \<open>if result.get('ret') == 1 or result.get('code') == 0 or result.get('success')\<close>,
  \<open>msg = result.get('msg', result.get('message', ...))\<close> and the two returns. A body that
  is not a dict raises at the first \<open>.get\<close>.
\<close>

definition is_success_body :: "(pystr \<times> json) list \<Rightarrow> bool" where
  "is_success_body kvs =
     ((case map_of kvs (ascii ''ret'') of None \<Rightarrow> False | Some v \<Rightarrow> py_eq_int v 1) \<or>
      (case map_of kvs (ascii ''code'') of None \<Rightarrow> False | Some v \<Rightarrow> py_eq_int v 0) \<or>
      (case map_of kvs (ascii ''success'') of None \<Rightarrow> False | Some v \<Rightarrow> truthy v))"

definition failure_msg :: "(pystr \<times> json) list \<Rightarrow> json" where
  "failure_msg kvs =
     dict_get_default kvs (ascii ''msg'')
       (dict_get_default kvs (ascii ''message'') (JStr msg_unknown_error))"

definition judge_body :: "(json \<Rightarrow> pystr) \<Rightarrow> json \<Rightarrow> balance option \<Rightarrow> exn + outcome" where
  "judge_body repr result bal =
     (case result of
        JObj kvs \<Rightarrow>
          (if is_success_body kvs then Inr (True, msg_checkin_ok, bal)
           else Inr (False, msg_checkin_failed @ py_str repr (failure_msg kvs), bal))
      | _ \<Rightarrow> Inl (attribute_error result))"

text \<open>
  \<open>_do_anyrouter_checkin\<close>. \<open>user_response\<close> and \<open>post\<close> are what the two requests give:
  a response, or the exception the transport raises.
\<close>

definition do_anyrouter_checkin ::
  "(real \<Rightarrow> pyfloat) \<Rightarrow> (json \<Rightarrow> pystr) \<Rightarrow> exn + response \<Rightarrow> exn + response \<Rightarrow>
   outcome" where
  "do_anyrouter_checkin rnd repr user_response post =
     (let bal = fetch_balance rnd user_response in
      case post of
        Inl e \<Rightarrow> (False, msg_request_exception @ take 50 (exn_str e), None)
      | Inr r \<Rightarrow>
          (if status_code r = 200 then
             (case (case resp_json r of Inl e \<Rightarrow> Inl e
                    | Inr result \<Rightarrow> judge_body repr result bal) of
                Inr out \<Rightarrow> out
              | Inl e \<Rightarrow>
                  (if str_in (ascii ''success'') (py_lower (body_text r))
                   then (True, msg_checkin_ok, bal)
                   else (False, msg_format_error, bal)))
           else (False, msg_http_status (status_code r), bal)))"

text \<open>
  \<open>_do_agentrouter_checkin\<close>. The inner handler catches \<open>httpx.HTTPStatusError\<close> only;
  every other exception of the inner block reaches the outer \<open>except Exception\<close>.
\<close>

definition agentrouter_inner :: "(json \<Rightarrow> pystr) \<Rightarrow> balance option \<Rightarrow> exn + response \<Rightarrow> exn + outcome" where
  "agentrouter_inner repr bal post =
     (case post of
        Inl e \<Rightarrow> Inl e
      | Inr r \<Rightarrow>
          (if status_code r = 200 then
             (case resp_json r of Inl e \<Rightarrow> Inl e
              | Inr result \<Rightarrow> judge_body repr result bal)
           else if status_code r = 404 then
             (if bal \<noteq> None then Inr (True, msg_keepalive_ok, bal)
              else Inr (False, msg_keepalive_failed, None))
           else Inr (False, msg_http_status (status_code r), bal)))"

definition do_agentrouter_checkin ::
  "(real \<Rightarrow> pyfloat) \<Rightarrow> (json \<Rightarrow> pystr) \<Rightarrow> exn + response \<Rightarrow> exn + response \<Rightarrow>
   outcome" where
  "do_agentrouter_checkin rnd repr user_response post =
     (let bal = fetch_balance rnd user_response in
      case agentrouter_inner repr bal post of
        Inr out \<Rightarrow> out
      | Inl (HTTPStatusError code t) \<Rightarrow>
          (if code = 404 \<and> bal \<noteq> None then (True, msg_keepalive_ok, bal)
           else (False, msg_request_failed @ t, bal))
      | Inl (OtherError t) \<Rightarrow> (False, msg_request_exception @ take 50 t, None))"

section \<open>Cookies and the browser\<close>

type_synonym cookies = "(pystr \<times> pystr) list"

text \<open>\<open>{**a, **b}\<close>: the keys of \<open>a\<close> in their order, overwritten by \<open>b\<close>, then the new keys of \<open>b\<close>.\<close>

definition dict_merge :: "('k \<times> 'v) list \<Rightarrow> ('k \<times> 'v) list \<Rightarrow> ('k \<times> 'v) list" where
  "dict_merge a b = fold (\<lambda>(k, v) d. AList.update k v d) b a"

text \<open>
  What one browser session of \<open>_get_waf_cookies\<close> meets: the launch (outside the
  \<open>try\<close>) raises, or the navigation or the cookie read (inside it) raises, or the
  context's cookies are read as (name, value) pairs.
\<close>

datatype browse =
    LaunchFailed exn
  | PageFailed exn
  | Page "(pystr \<times> pystr) list"

definition waf_names :: "pystr list" where
  "waf_names = [ascii ''acw_tc'', ascii ''cdn_sec_tc'', ascii ''acw_sc__v2'']"

definition get_waf_cookies :: "(pystr \<Rightarrow> nat \<Rightarrow> browse) \<Rightarrow> pystr \<Rightarrow> nat \<Rightarrow> exn + cookies option" where
  "get_waf_cookies br url timeout =
     (case br url timeout of
        LaunchFailed e \<Rightarrow> Inl e
      | PageFailed e \<Rightarrow> Inr None
      | Page cs \<Rightarrow>
          (let waf_cookies =
                 fold (\<lambda>(cookie_name, cookie_value) d.
                         if cookie_name \<in> set waf_names \<and> cookie_value \<noteq> []
                         then AList.update cookie_name cookie_value d else d) cs []
           in Inr (if waf_cookies \<noteq> [] then Some waf_cookies else None)))"

text \<open>\<open>if cookies:\<close> on a value that is \<open>None\<close> or a dict.\<close>

fun cookies_truthy :: "cookies option \<Rightarrow> bool" where
  "cookies_truthy None = False"
| "cookies_truthy (Some c) = (c \<noteq> [])"

text \<open>
  \<open>_get_waf_cookies_with_fallback\<close>. The first component is the list of URLs the loop
  announces (\<open>print\<close>) and visits; the second is what the function returns or raises.
\<close>

fun get_waf_cookies_with_fallback ::
  "(pystr \<Rightarrow> nat \<Rightarrow> browse) \<Rightarrow> pystr list \<Rightarrow> pystr list \<times> (exn + cookies option)" where
  "get_waf_cookies_with_fallback br [] = ([], Inr None)"
| "get_waf_cookies_with_fallback br (url # urls) =
     (case get_waf_cookies br url 20000 of
        Inl e \<Rightarrow> ([url], Inl e)
      | Inr c \<Rightarrow>
          (if cookies_truthy c then ([url], Inr c)
           else (case get_waf_cookies_with_fallback br urls of
                   (tried, res) \<Rightarrow> (url # tried, res))))"

section \<open>The balance ledger\<close>

text \<open>
  The fields of a \<open>RouterCheckin\<close> object; dicts keep insertion order.
  \<open>last_balance_data\<close> is the object loaded from the data file (\<open>_load_balance_data\<close>
  is declared to return a dict); its entries are whatever the file holds.
\<close>

record checker =
  last_balance_hash :: "pystr option"
  last_balance_data :: "(pystr \<times> json) list"
  current_balances :: "(pystr \<times> balance) list"
  balance_changed :: bool

text \<open>
  The lines \<open>_show_balance_change\<close> prints, by kind and with the numbers they show; the
  wording is left out.
\<close>

datatype change_line =
    ChangeHeader
  | RechargeUp pyfloat json pyfloat
  | RechargeDown pyfloat json pyfloat
  | UsedUp pyfloat json pyfloat
  | UsedDown pyfloat json pyfloat
  | QuotaUp pyfloat json pyfloat
  | QuotaDown pyfloat json pyfloat
  | QuotaSame pyfloat

text \<open>
  \<open>_show_balance_change\<close>: the lines printed, or the exception raised by an entry of the
  previous run that is not a dict of numbers. All the arithmetic precedes the printing.
\<close>

definition show_balance_change ::
  "(real \<Rightarrow> pyfloat) \<Rightarrow> (pystr \<times> json) list \<Rightarrow> pystr \<Rightarrow> balance \<Rightarrow> exn + change_line list" where
  "show_balance_change rnd last_data account_key current_balance =
     (case map_of last_data account_key of
        None \<Rightarrow> Inr []
      | Some last_balance \<Rightarrow>
          (case last_balance of
             JObj lb \<Rightarrow>
               (let last_quota = dict_get_default lb (ascii ''quota'') (JInt 0);
                    last_used = dict_get_default lb (ascii ''used'') (JInt 0);
                    current_quota = quota current_balance;
                    current_used = used current_balance
                in case py_add rnd last_quota last_used of
                     Inl e \<Rightarrow> Inl e
                   | Inr last_total \<Rightarrow>
                       (let current_total = fadd rnd current_quota current_used
                        in case py_float_sub rnd current_total last_total of
                             Inl e \<Rightarrow> Inl e
                           | Inr total_recharge \<Rightarrow>
                               (case py_float_sub rnd current_used last_used of
                                  Inl e \<Rightarrow> Inl e
                                | Inr used_change \<Rightarrow>
                                    (case py_float_sub rnd current_quota last_quota of
                                       Inl e \<Rightarrow> Inl e
                                     | Inr quota_change \<Rightarrow>
                                         Inr (if f_nonzero total_recharge \<or> f_nonzero used_change
                                              then
                                                [ChangeHeader] @
                                                (if f_pos total_recharge
                                                 then [RechargeUp total_recharge last_total
                                                         current_total]
                                                 else if f_neg total_recharge
                                                   then [RechargeDown total_recharge last_total
                                                           current_total]
                                                 else []) @
                                                (if f_pos used_change
                                                 then [UsedUp used_change last_used current_used]
                                                 else if f_neg used_change
                                                   then [UsedDown used_change last_used
                                                           current_used]
                                                 else []) @
                                                (if f_pos quota_change
                                                 then [QuotaUp quota_change last_quota
                                                         current_quota]
                                                 else if f_neg quota_change
                                                   then [QuotaDown quota_change last_quota
                                                           current_quota]
                                                 else [QuotaSame current_quota])
                                              else [])))))
           | _ \<Rightarrow> Inl (attribute_error last_balance)))"

text \<open>
  \<open>_generate_balance_hash\<close>. The library functions it calls are parameters: the
  rendering of a float and of a key by \<open>json.dumps\<close>, and
  \<open>hashlib.sha256(s.encode()).hexdigest()\<close>. \<open>sort_keys=True\<close> orders the items by key,
  and Python orders strings by code point.
\<close>

record codec =
  float_repr :: "pyfloat \<Rightarrow> pystr"
  json_key :: "pystr \<Rightarrow> pystr"
  sha256_hexdigest :: "pystr \<Rightarrow> pystr"

fun join :: "pystr \<Rightarrow> pystr list \<Rightarrow> pystr" where
  "join sep [] = []"
| "join sep [x] = x"
| "join sep (x # y # ys) = x @ sep @ join sep (y # ys)"

definition json_dumps_sorted :: "codec \<Rightarrow> (pystr \<times> pyfloat) list \<Rightarrow> pystr" where
  "json_dumps_sorted c d =
     [123] @
     join (ascii '', '')
       (map (\<lambda>(k, q). json_key c k @ ascii '': '' @ float_repr c q) (sort_key fst d)) @
     [125]"

definition generate_balance_hash :: "codec \<Rightarrow> (pystr \<times> balance) list \<Rightarrow> pystr" where
  "generate_balance_hash c balances =
     (let simple_balances = map (\<lambda>(k, v). (k, quota v)) balances;
          balance_json = json_dumps_sorted c simple_balances
      in take 16 (sha256_hexdigest c balance_json))"

text \<open>
  The two state files. A write that raises is caught inside \<open>_save_balance_hash\<close> and
  \<open>_save_balance_data\<close> and only logged, so what a write does is an input: it is
  carried out, or it raises and leaves the file with some content.
\<close>

record disk =
  hash_file :: "pystr option"
  data_file :: "(pystr \<times> balance) list option"

datatype 'a write_result = Written | WriteFailed exn "'a option"

record writes =
  hash_write :: "pystr write_result"
  data_write :: "(pystr \<times> balance) list write_result"

definition save_balance_hash :: "pystr write_result \<Rightarrow> pystr \<Rightarrow> disk \<Rightarrow> disk" where
  "save_balance_hash wr balance_hash d =
     (case wr of
        Written \<Rightarrow> d\<lparr>hash_file := Some balance_hash\<rparr>
      | WriteFailed e left \<Rightarrow> d\<lparr>hash_file := left\<rparr>)"

definition save_balance_data ::
  "(pystr \<times> balance) list write_result \<Rightarrow> (pystr \<times> balance) list \<Rightarrow> disk \<Rightarrow> disk" where
  "save_balance_data wr balances d =
     (case wr of
        Written \<Rightarrow> d\<lparr>data_file := Some balances\<rparr>
      | WriteFailed e left \<Rightarrow> d\<lparr>data_file := left\<rparr>)"

definition check_balance_change :: "codec \<Rightarrow> writes \<Rightarrow> checker \<Rightarrow> disk \<Rightarrow> checker \<times> disk" where
  "check_balance_change c ws st d =
     (if current_balances st = [] then (st, d)
      else
        (let current_hash = generate_balance_hash c (current_balances st);
             st' = (if last_balance_hash st = None then st\<lparr>balance_changed := True\<rparr>
                    else if Some current_hash \<noteq> last_balance_hash st
                      then st\<lparr>balance_changed := True\<rparr>
                    else st\<lparr>balance_changed := False\<rparr>);
             d1 = save_balance_hash (hash_write ws) current_hash d;
             d2 = save_balance_data (data_write ws) (current_balances st) d1
         in (st', d2)))"

definition has_balance_changed :: "checker \<Rightarrow> bool" where
  "has_balance_changed st = balance_changed st"

section \<open>One account\<close>

text \<open>
  An account is a dict of the configuration; a key may be missing, which \<open>.get\<close> with a
  default covers.
\<close>

record account =
  acc_name :: "pystr option"
  acc_cookies :: "json option"
  acc_api_user :: "pystr option"
  acc_email :: "pystr option"
  acc_password :: "pystr option"

text \<open>\<open>account.get(key, default)\<close> for the four keys that have a default.\<close>

definition get_cookies :: "account \<Rightarrow> json" where
  "get_cookies account = (case acc_cookies account of None \<Rightarrow> JObj [] | Some c \<Rightarrow> c)"

definition get_api_user :: "account \<Rightarrow> pystr" where
  "get_api_user account = (case acc_api_user account of None \<Rightarrow> [] | Some a \<Rightarrow> a)"

definition get_email :: "account \<Rightarrow> pystr" where
  "get_email account = (case acc_email account of None \<Rightarrow> [] | Some x \<Rightarrow> x)"

definition get_password :: "account \<Rightarrow> pystr" where
  "get_password account = (case acc_password account of None \<Rightarrow> [] | Some x \<Rightarrow> x)"

record login_result =
  login_cookies :: cookies
  login_api_user :: pystr

text \<open>
  What lies outside the module while one account is processed: \<open>config.parse_cookies\<close>
  (a result that is falsy is the empty list),
  the browser, the credential login \<open>_login_agentrouter\<close> (a browser dialogue, taken by
  its result), the two HTTP requests (URL, cookies and the \<open>new-api-user\<close> header are
  passed) and Python's rendering of values. The rounding of floats, \<open>rnd\<close>, is the
  same for all accounts and is passed beside the world.
\<close>

record world =
  parse_cookies :: "json \<Rightarrow> exn + cookies"
  browser :: "pystr \<Rightarrow> nat \<Rightarrow> browse"
  login_agentrouter :: "pystr \<Rightarrow> pystr \<Rightarrow> exn + login_result option"
  http_get :: "pystr \<Rightarrow> cookies \<Rightarrow> pystr \<Rightarrow> exn + response"
  http_post :: "pystr \<Rightarrow> cookies \<Rightarrow> pystr \<Rightarrow> exn + response"
  py_repr :: "json \<Rightarrow> pystr"

text \<open>The result dict of \<open>_make_result\<close>, without its timestamp.\<close>

record result =
  platform :: pystr
  name :: pystr
  success :: bool
  message :: pystr
  balance_of :: "balance option"

definition make_result :: "pystr \<Rightarrow> pystr \<Rightarrow> bool \<Rightarrow> pystr \<Rightarrow> balance option \<Rightarrow> result" where
  "make_result p n s m b =
     \<lparr>platform = p, name = n, success = s, message = m, balance_of = b\<rparr>"

definition msg_no_api_user :: pystr where
  "msg_no_api_user = ascii ''API User ID '' @ [26410, 37197, 32622]"

definition msg_bad_cookies :: pystr where
  "msg_bad_cookies = ascii ''Cookies '' @ [26684, 24335, 38169, 35823]"

definition msg_no_waf :: pystr where
  "msg_no_waf = [26080, 27861, 33719, 21462] @ ascii '' WAF cookies''"

definition msg_login_failed :: pystr where
  "msg_login_failed = [36134, 21495, 23494, 30721, 30331, 24405, 22833, 36133]"

text \<open>\<open>account.get('name', f'{platform}...{index+1}')\<close>, the default ending in the position.\<close>

definition default_name :: "pystr \<Rightarrow> nat \<Rightarrow> pystr" where
  "default_name p index = p @ [36134, 21495] @ dec (index + 1)"

definition name_of :: "pystr \<Rightarrow> account \<Rightarrow> nat \<Rightarrow> pystr" where
  "name_of p account index =
     (case acc_name account of None \<Rightarrow> default_name p index | Some n \<Rightarrow> n)"

text \<open>The URLs of the two platforms.\<close>

definition anyrouter_login :: pystr where
  "anyrouter_login = ascii ''https://anyrouter.top/login''"

definition anyrouter_self :: pystr where
  "anyrouter_self = ascii ''https://anyrouter.top/api/user/self''"

definition anyrouter_sign_in :: pystr where
  "anyrouter_sign_in = ascii ''https://anyrouter.top/api/user/sign_in''"

definition agentrouter_urls :: "pystr list" where
  "agentrouter_urls = [ascii ''https://agentrouter.org'', ascii ''https://agentrouter.org/console'']"

definition agentrouter_self :: pystr where
  "agentrouter_self = ascii ''https://agentrouter.org/api/user/self''"

definition agentrouter_sign_in :: pystr where
  "agentrouter_sign_in = ascii ''https://agentrouter.org/api/user/sign_in''"

text \<open>
  The calls \<open>self._do_anyrouter_checkin(account_name, all_cookies, api_user)\<close> and
  \<open>self._do_agentrouter_checkin(...)\<close> in a world: the two requests are made with the
  cookies and the user id, and the function decides on what they give.
\<close>

definition call_anyrouter_checkin ::
  "(real \<Rightarrow> pyfloat) \<Rightarrow> world \<Rightarrow> cookies \<Rightarrow> pystr \<Rightarrow> outcome" where
  "call_anyrouter_checkin rnd w all_cookies api_user =
     do_anyrouter_checkin rnd (py_repr w)
       (http_get w anyrouter_self all_cookies api_user)
       (http_post w anyrouter_sign_in all_cookies api_user)"

definition call_agentrouter_checkin ::
  "(real \<Rightarrow> pyfloat) \<Rightarrow> world \<Rightarrow> cookies \<Rightarrow> pystr \<Rightarrow> outcome" where
  "call_agentrouter_checkin rnd w all_cookies api_user =
     do_agentrouter_checkin rnd (py_repr w)
       (http_get w agentrouter_self all_cookies api_user)
       (http_post w agentrouter_sign_in all_cookies api_user)"

text \<open>
  The lines \<open>if balance: ...\<close> that end the body of both check-in functions. The balance
  is stored under the key first; then the change is shown, which can raise; then the
  result is built. The state is returned beside the result or the exception, since the
  ledger keeps what was stored when the exception leaves.
\<close>

definition record_balance ::
  "(real \<Rightarrow> pyfloat) \<Rightarrow> pystr \<Rightarrow> pystr \<Rightarrow> pystr \<Rightarrow> checker \<Rightarrow> outcome \<Rightarrow>
   (exn + result \<times> change_line list) \<times> checker" where
  "record_balance rnd p key_prefix account_name st out =
     (case out of (succ, msg, bal) \<Rightarrow>
        (case bal of
           None \<Rightarrow> (Inr (make_result p account_name succ msg None, []), st)
         | Some b \<Rightarrow>
             (let account_key = key_prefix @ account_name;
                  st1 = st\<lparr>current_balances :=
                             AList.update account_key b (current_balances st)\<rparr>
              in case show_balance_change rnd (last_balance_data st) account_key b of
                   Inl e \<Rightarrow> (Inl e, st1)
                 | Inr lines \<Rightarrow> (Inr (make_result p account_name succ msg (Some b), lines), st1))))"

text \<open>
  The body of the \<open>try\<close> of \<open>checkin_anyrouter\<close>: a result with the lines printed, or the
  exception that leaves it, and the state it leaves.
\<close>

definition checkin_anyrouter_body ::
  "(real \<Rightarrow> pyfloat) \<Rightarrow> world \<Rightarrow> checker \<Rightarrow> account \<Rightarrow> pystr \<Rightarrow>
   (exn + result \<times> change_line list) \<times> checker" where
  "checkin_anyrouter_body rnd w st account account_name =
     (let p = ascii ''AnyRouter'';
          cookies_data = get_cookies account;
          api_user = get_api_user account
      in if api_user = []
         then (Inr (make_result p account_name False msg_no_api_user None, []), st)
         else
           (case parse_cookies w cookies_data of
              Inl e \<Rightarrow> (Inl e, st)
            | Inr user_cookies \<Rightarrow>
                (if user_cookies = []
                 then (Inr (make_result p account_name False msg_bad_cookies None, []), st)
                 else
                   (case get_waf_cookies (browser w) anyrouter_login 30000 of
                      Inl e \<Rightarrow> (Inl e, st)
                    | Inr None \<Rightarrow>
                        (Inr (make_result p account_name False msg_no_waf None, []), st)
                    | Inr (Some waf_cookies) \<Rightarrow>
                        (if waf_cookies = []
                         then (Inr (make_result p account_name False msg_no_waf None, []), st)
                         else
                           (let all_cookies = dict_merge waf_cookies user_cookies;
                                out = call_anyrouter_checkin rnd w all_cookies api_user
                            in record_balance rnd p (ascii ''anyrouter_'') account_name st out))))))"

text \<open>
  The handler \<open>except Exception as e\<close> of both check-in functions: a failed result with the
  first 50 characters of the exception text, and no balance.
\<close>

definition handle_exception ::
  "pystr \<Rightarrow> pystr \<Rightarrow> (exn + result \<times> change_line list) \<times> checker \<Rightarrow>
   result \<times> checker \<times> change_line list" where
  "handle_exception p account_name body =
     (case body of
        (Inr (r, lines), st) \<Rightarrow> (r, st, lines)
      | (Inl e, st) \<Rightarrow>
          (make_result p account_name False (msg_checkin_exception @ take 50 (exn_str e)) None,
           st, []))"

text \<open>\<open>checkin_anyrouter\<close>: the body, and the handler around it.\<close>

definition checkin_anyrouter ::
  "(real \<Rightarrow> pyfloat) \<Rightarrow> world \<Rightarrow> checker \<Rightarrow> account \<Rightarrow> nat \<Rightarrow>
   result \<times> checker \<times> change_line list" where
  "checkin_anyrouter rnd w st account index =
     (let account_name = name_of (ascii ''AnyRouter'') account index
      in handle_exception (ascii ''AnyRouter'') account_name
           (checkin_anyrouter_body rnd w st account account_name))"

text \<open>\<open>if waf_cookies: user_cookies = {**waf_cookies, **user_cookies}\<close>.\<close>

definition merge_waf :: "cookies option \<Rightarrow> cookies \<Rightarrow> cookies" where
  "merge_waf waf user_cookies =
     (case waf of
        None \<Rightarrow> user_cookies
      | Some waf_cookies \<Rightarrow>
          if waf_cookies \<noteq> [] then dict_merge waf_cookies user_cookies else user_cookies)"

text \<open>
  \<open>checkin_agentrouter\<close>, in the same two parts. \<open>agentrouter_session\<close> is the
  \<open>if email and password: ... else: ...\<close> that yields the cookies and the user id, or
  returns a failed result early (\<open>Inr (Inl r)\<close>), or raises.
\<close>

definition agentrouter_session ::
  "world \<Rightarrow> account \<Rightarrow> pystr \<Rightarrow> exn + (result + cookies \<times> pystr)" where
  "agentrouter_session w account account_name =
     (let p = ascii ''AgentRouter'';
          email = get_email account;
          password = get_password account
      in if email \<noteq> [] \<and> password \<noteq> [] then
           (case login_agentrouter w email password of
              Inl e \<Rightarrow> Inl e
            | Inr None \<Rightarrow> Inr (Inl (make_result p account_name False msg_login_failed None))
            | Inr (Some lr) \<Rightarrow> Inr (Inr (login_cookies lr, login_api_user lr)))
         else
           (let cookies_data = get_cookies account;
                api_user = get_api_user account
            in if api_user = []
               then Inr (Inl (make_result p account_name False msg_no_api_user None))
               else
                 (case parse_cookies w cookies_data of
                    Inl e \<Rightarrow> Inl e
                  | Inr user_cookies \<Rightarrow>
                      (if user_cookies = []
                       then Inr (Inl (make_result p account_name False msg_bad_cookies None))
                       else
                         (case snd (get_waf_cookies_with_fallback (browser w) agentrouter_urls) of
                            Inl e \<Rightarrow> Inl e
                          | Inr waf \<Rightarrow> Inr (Inr (merge_waf waf user_cookies, api_user)))))))"

definition checkin_agentrouter_body ::
  "(real \<Rightarrow> pyfloat) \<Rightarrow> world \<Rightarrow> checker \<Rightarrow> account \<Rightarrow> pystr \<Rightarrow>
   (exn + result \<times> change_line list) \<times> checker" where
  "checkin_agentrouter_body rnd w st account account_name =
     (case agentrouter_session w account account_name of
        Inl e \<Rightarrow> (Inl e, st)
      | Inr (Inl early) \<Rightarrow> (Inr (early, []), st)
      | Inr (Inr (all_cookies, api_user)) \<Rightarrow>
          (let out = call_agentrouter_checkin rnd w all_cookies api_user
           in record_balance rnd (ascii ''AgentRouter'') (ascii ''agentrouter_'')
                account_name st out))"

definition checkin_agentrouter ::
  "(real \<Rightarrow> pyfloat) \<Rightarrow> world \<Rightarrow> checker \<Rightarrow> account \<Rightarrow> nat \<Rightarrow>
   result \<times> checker \<times> change_line list" where
  "checkin_agentrouter rnd w st account index =
     (let account_name = name_of (ascii ''AgentRouter'') account index
      in handle_exception (ascii ''AgentRouter'') account_name
           (checkin_agentrouter_body rnd w st account account_name))"

section \<open>The whole run\<close>

text \<open>
  What a run does that can be observed from outside, in order: an account is taken up
  (the \<open>[PROCESSING]\<close> line, with platform and index), a balance change is printed, the
  run sleeps, a platform summary is printed.
\<close>

record summary =
  sum_platform :: pystr
  sum_count :: nat
  sum_success :: nat
  sum_failed :: nat
  sum_totals :: "(pyfloat \<times> pyfloat) option"

datatype event =
    Processing pystr nat
  | Change "change_line list"
  | Sleep nat
  | Summary summary

text \<open>
  \<open>_print_platform_summary\<close>. The totals start from the integer 0, which is 0.0 once a
  float is added to it.
\<close>

definition print_platform_summary :: "(real \<Rightarrow> pyfloat) \<Rightarrow> pystr \<Rightarrow> result list \<Rightarrow> summary" where
  "print_platform_summary rnd platform_name platform_results =
     (let success_count = length (filter success platform_results);
          failed_count = length platform_results - success_count;
          with_balance = List.map_filter balance_of platform_results
      in \<lparr>sum_platform = platform_name,
          sum_count = length platform_results,
          sum_success = success_count,
          sum_failed = failed_count,
          sum_totals = (if with_balance = [] then None
                        else Some (foldl (fadd rnd) (Fin 0) (map quota with_balance),
                                   foldl (fadd rnd) (Fin 0) (map used with_balance)))\<rparr>)"

text \<open>
  One \<open>for i, account in enumerate(accounts)\<close> loop of \<open>run_all\<close>: check in, append the
  result, sleep two seconds. \<open>chk i\<close> is the check-in of the account at index \<open>i\<close>, in the
  world that account meets.
\<close>

fun checkin_loop ::
  "pystr \<Rightarrow> (nat \<Rightarrow> checker \<Rightarrow> account \<Rightarrow> nat \<Rightarrow> result \<times> checker \<times> change_line list) \<Rightarrow>
   checker \<Rightarrow> nat \<Rightarrow> account list \<Rightarrow> result list \<times> checker \<times> event list" where
  "checkin_loop p chk st i [] = ([], st, [])"
| "checkin_loop p chk st i (a # as) =
     (case chk i st a i of
        (r, st1, lines) \<Rightarrow>
          (case checkin_loop p chk st1 (Suc i) as of
             (rs, st2, evs) \<Rightarrow>
               (r # rs, st2,
                [Processing p i] @ (if lines = [] then [] else [Change lines]) @ [Sleep 2] @ evs)))"

record run_result =
  run_results :: "result list"
  run_state :: checker
  run_disk :: disk
  run_events :: "event list"

definition run_all ::
  "(real \<Rightarrow> pyfloat) \<Rightarrow> codec \<Rightarrow> writes \<Rightarrow> (nat \<Rightarrow> world) \<Rightarrow> (nat \<Rightarrow> world) \<Rightarrow> checker \<Rightarrow> disk \<Rightarrow>
   account list \<Rightarrow> account list \<Rightarrow> run_result" where
  "run_all rnd c ws w_any w_agent st d anyrouter_accounts agentrouter_accounts =
     (case checkin_loop (ascii ''AnyRouter'') (\<lambda>i. checkin_anyrouter rnd (w_any i)) st 0
             anyrouter_accounts of
        (anyrouter_results, st1, ev1) \<Rightarrow>
          (case checkin_loop (ascii ''AgentRouter'') (\<lambda>i. checkin_agentrouter rnd (w_agent i))
                  st1 0 agentrouter_accounts of
             (agentrouter_results, st2, ev2) \<Rightarrow>
               (case check_balance_change c ws st2 d of
                  (st3, d') \<Rightarrow>
                    \<lparr>run_results = anyrouter_results @ agentrouter_results,
                     run_state = st3,
                     run_disk = d',
                     run_events =
                       ev1 @
                       (if anyrouter_results = [] then []
                        else [Summary (print_platform_summary rnd (ascii ''AnyRouter'')
                                         anyrouter_results)]) @
                       ev2 @
                       (if agentrouter_results = [] then []
                        else [Summary (print_platform_summary rnd (ascii ''AgentRouter'')
                                         agentrouter_results)])\<rparr>)))"

text \<open>
  The pacing of a run is its events of taking up an account and of sleeping. \<open>paced\<close> is
  the pacing of one loop as the source has it. \<open>spec_pacing\<close> is the pacing the
  specification describes for a whole run: the same, but without a delay after the last
  account of the last platform.
\<close>

fun is_pacing :: "event \<Rightarrow> bool" where
  "is_pacing (Processing p i) = True"
| "is_pacing (Sleep n) = True"
| "is_pacing (Change ls) = False"
| "is_pacing (Summary s) = False"

definition paced :: "pystr \<Rightarrow> nat \<Rightarrow> nat \<Rightarrow> event list" where
  "paced p i n = concat (map (\<lambda>j. [Processing p j, Sleep 2]) [i..<i + n])"

definition spec_pacing :: "nat \<Rightarrow> nat \<Rightarrow> event list" where
  "spec_pacing n m = butlast (paced (ascii ''AnyRouter'') 0 n @ paced (ascii ''AgentRouter'') 0 m)"

section \<open>Example inputs\<close>

text \<open>
  Concrete responses, accounts and worlds on which the theorems below are evaluated.
  \<open>ex_repr\<close> stands in for Python's rendering of non-string values; no example renders
  one. \<open>ex_rnd\<close> is the rounding of floats on the numbers the examples meet: an integer of
  magnitude at most \<open>2^53\<close> is a binary64 number, which rounding to nearest returns as it
  is. No example rounds another number, and \<open>ex_rnd\<close> says nothing about one.
\<close>

definition ex_repr :: "json \<Rightarrow> pystr" where
  "ex_repr j = ascii ''?''"

definition ex_rnd :: "real \<Rightarrow> pyfloat" where
  "ex_rnd r = (if r = of_int \<lfloor>r\<rfloor> \<and> \<bar>r\<bar> \<le> 2 ^ 53 then Fin r else undefined)"

definition ex_user_ok :: response where
  "ex_user_ok =
     \<lparr>status_code = 200, body_text = [],
      resp_json = Inr (JObj [(ascii ''success'', JBool True),
        (ascii ''data'', JObj [(ascii ''quota'', JInt 5000000),
                               (ascii ''used_quota'', JInt 1000000)])])\<rparr>"

definition ex_user_401 :: response where
  "ex_user_401 = \<lparr>status_code = 401, body_text = [], resp_json = Inl (OtherError [])\<rparr>"

definition ex_not_found :: response where
  "ex_not_found =
     \<lparr>status_code = 404, body_text = ascii ''404 page not found'',
      resp_json = Inl (OtherError (ascii ''Expecting value: line 1 column 1 (char 0)''))\<rparr>"

definition ex_plain_success :: response where
  "ex_plain_success =
     \<lparr>status_code = 200, body_text = ascii ''Success'',
      resp_json = Inl (OtherError (ascii ''Expecting value: line 1 column 1 (char 0)''))\<rparr>"

definition ex_json_string :: response where
  "ex_json_string =
     \<lparr>status_code = 200, body_text = [34] @ ascii ''success'' @ [34],
      resp_json = Inr (JStr (ascii ''success''))\<rparr>"

definition ex_cooldown :: response where
  "ex_cooldown =
     \<lparr>status_code = 200, body_text = [],
      resp_json = Inr (JObj [(ascii ''code'', JInt 5), (ascii ''msg'', JStr (ascii ''cooldown''))])\<rparr>"

definition ex_browser :: "pystr \<Rightarrow> nat \<Rightarrow> browse" where
  "ex_browser url timeout =
     (if url = ascii ''https://agentrouter.org'' then Page [(ascii ''theme'', ascii ''dark'')]
      else if url = ascii ''https://agentrouter.org/console''
        then Page [(ascii ''acw_tc'', ascii ''abc''), (ascii ''theme'', ascii ''dark'')]
      else if url = ascii ''https://anyrouter.top/login''
        then Page [(ascii ''acw_tc'', ascii ''xyz'')]
      else PageFailed (OtherError (ascii ''net::ERR_NAME_NOT_RESOLVED'')))"

text \<open>
  The data of a previous run: one account with quota 10.0 and used 2.0. In the second,
  the quota is an infinity, as the data file has it (\<open>Infinity\<close>) after the service
  reported a quota of \<open>1e999\<close>. In the third, the entry has lost its numbers.
\<close>

definition ex_last_data :: "(pystr \<times> json) list" where
  "ex_last_data =
     [(ascii ''anyrouter_main'',
       JObj [(ascii ''quota'', JFloat (Fin 10)), (ascii ''used'', JFloat (Fin 2))])]"

definition ex_last_data_inf :: "(pystr \<times> json) list" where
  "ex_last_data_inf =
     [(ascii ''anyrouter_main'',
       JObj [(ascii ''quota'', JFloat PInf), (ascii ''used'', JFloat (Fin 2))])]"

definition ex_last_data_null :: "(pystr \<times> json) list" where
  "ex_last_data_null =
     [(ascii ''anyrouter_main'', JObj [(ascii ''quota'', JNull), (ascii ''used'', JFloat (Fin 2))])]"

text \<open>
  Stand-ins for the library functions of the fingerprint; the digest is a string of 64
  hexadecimal digits, as a SHA-256 \<open>hexdigest\<close> is.
\<close>

definition ex_codec :: codec where
  "ex_codec = \<lparr>float_repr = (\<lambda>f. case f of Fin r \<Rightarrow> str_int (floor r) @ ascii ''.0''
                                      | _ \<Rightarrow> ascii ''NaN''),
               json_key = (\<lambda>k. [34] @ k @ [34]),
               sha256_hexdigest = (\<lambda>s. replicate 64 48)\<rparr>"

definition ex_checker :: checker where
  "ex_checker =
     \<lparr>last_balance_hash = None, last_balance_data = ex_last_data,
      current_balances = [], balance_changed = False\<rparr>"

definition ex_disk :: disk where
  "ex_disk = \<lparr>hash_file = None, data_file = None\<rparr>"

definition ex_writes :: writes where
  "ex_writes = \<lparr>hash_write = Written, data_write = Written\<rparr>"

text \<open>Both state files are read-only: \<open>open\<close> raises and leaves them as they were.\<close>

definition ex_denied :: "pystr \<Rightarrow> exn" where
  "ex_denied file =
     OtherError (ascii ''[Errno 13] Permission denied: '' @ [39] @ file @ [39])"

definition ex_writes_denied :: "disk \<Rightarrow> writes" where
  "ex_writes_denied d =
     \<lparr>hash_write = WriteFailed (ex_denied (ascii ''balance_hash.txt'')) (hash_file d),
      data_write = WriteFailed (ex_denied (ascii ''balance_data.json'')) (data_file d)\<rparr>"

definition ex_balance :: balance where
  "ex_balance = \<lparr>quota = Fin 10, used = Fin 2\<rparr>"

definition ex_checker_full :: checker where
  "ex_checker_full =
     \<lparr>last_balance_hash = None, last_balance_data = ex_last_data,
      current_balances = [(ascii ''anyrouter_main'', ex_balance)], balance_changed = False\<rparr>"

text \<open>
  Worlds an account can meet. In \<open>ex_world\<close> the browser finds the anti-bot cookie, the
  self endpoint reports a balance and the sign-in answers with a cool-down; the variants
  make the GET raise, the POST raise, or the browser fail to launch.
\<close>

definition ex_ret_one :: response where
  "ex_ret_one =
     \<lparr>status_code = 200, body_text = [], resp_json = Inr (JObj [(ascii ''ret'', JInt 1)])\<rparr>"

definition ex_parse_cookies :: "json \<Rightarrow> exn + cookies" where
  "ex_parse_cookies j =
     (case j of
        JObj kvs \<Rightarrow>
          Inr (List.map_filter (\<lambda>(k, v). case v of JStr s \<Rightarrow> Some (k, s) | _ \<Rightarrow> None) kvs)
      | _ \<Rightarrow> Inr [])"

definition ex_login :: "pystr \<Rightarrow> pystr \<Rightarrow> exn + login_result option" where
  "ex_login email password = Inr None"

definition ex_get :: "pystr \<Rightarrow> cookies \<Rightarrow> pystr \<Rightarrow> exn + response" where
  "ex_get url cs api_user = Inr ex_user_ok"

definition ex_get_raises :: "pystr \<Rightarrow> cookies \<Rightarrow> pystr \<Rightarrow> exn + response" where
  "ex_get_raises url cs api_user = Inl (OtherError (ascii ''timed out''))"

definition ex_post :: "pystr \<Rightarrow> cookies \<Rightarrow> pystr \<Rightarrow> exn + response" where
  "ex_post url cs api_user = Inr ex_cooldown"

definition ex_post_ok :: "pystr \<Rightarrow> cookies \<Rightarrow> pystr \<Rightarrow> exn + response" where
  "ex_post_ok url cs api_user = Inr ex_ret_one"

definition ex_post_raises :: "pystr \<Rightarrow> cookies \<Rightarrow> pystr \<Rightarrow> exn + response" where
  "ex_post_raises url cs api_user = Inl (OtherError (ascii ''timed out''))"

definition ex_launch_error :: pystr where
  "ex_launch_error =
     ascii ''BrowserType.launch_persistent_context: Executable does not exist at /root/.cache/ms-playwright''"

definition ex_no_browser :: "pystr \<Rightarrow> nat \<Rightarrow> browse" where
  "ex_no_browser url timeout = LaunchFailed (OtherError ex_launch_error)"

definition ex_world :: world where
  "ex_world =
     \<lparr>parse_cookies = ex_parse_cookies, browser = ex_browser, login_agentrouter = ex_login,
      http_get = ex_get, http_post = ex_post, py_repr = ex_repr\<rparr>"

definition ex_worlds :: "nat \<Rightarrow> world" where
  "ex_worlds i = ex_world"

definition ex_account :: account where
  "ex_account =
     \<lparr>acc_name = Some (ascii ''main''),
      acc_cookies = Some (JObj [(ascii ''session'', JStr (ascii ''s3cr3t''))]),
      acc_api_user = Some (ascii ''42''), acc_email = None, acc_password = None\<rparr>"

definition ex_world_get_raises :: world where
  "ex_world_get_raises = ex_world\<lparr>http_get := ex_get_raises, http_post := ex_post_ok\<rparr>"

definition ex_world_post_raises :: world where
  "ex_world_post_raises = ex_world\<lparr>http_post := ex_post_raises\<rparr>"

definition ex_world_no_browser :: world where
  "ex_world_no_browser = ex_world\<lparr>browser := ex_no_browser\<rparr>"

definition ex_cookies :: cookies where
  "ex_cookies = [(ascii ''acw_tc'', ascii ''xyz''), (ascii ''session'', ascii ''s3cr3t'')]"

text \<open>
  An AgentRouter account that logs in with its password, in a world where the login
  raises; and a checker whose previous entry for the account has lost its quota.
\<close>

definition ex_agent_account :: account where
  "ex_agent_account =
     \<lparr>acc_name = Some (ascii ''agent''), acc_cookies = None, acc_api_user = None,
      acc_email = Some (ascii ''a@b.c''), acc_password = Some (ascii ''pw'')\<rparr>"

definition ex_login_raises :: "pystr \<Rightarrow> pystr \<Rightarrow> exn + login_result option" where
  "ex_login_raises email password = Inl (OtherError ex_launch_error)"

definition ex_world_login_raises :: world where
  "ex_world_login_raises = ex_world\<lparr>login_agentrouter := ex_login_raises\<rparr>"

definition ex_type_error :: pystr where
  "ex_type_error =
     ascii ''unsupported operand type(s) for +: '' @ [39] @ ascii ''NoneType'' @ [39] @
     ascii '' and '' @ [39] @ ascii ''float'' @ [39]"

definition ex_checker_null :: checker where
  "ex_checker_null =
     \<lparr>last_balance_hash = None, last_balance_data = ex_last_data_null,
      current_balances = [], balance_changed = False\<rparr>"

text \<open>
  Further worlds: \<open>parse_cookies\<close> raises; the credential login succeeds, with the
  sign-in answering and with the sign-in POST raising.
\<close>

definition ex_parse_raises :: "json \<Rightarrow> exn + cookies" where
  "ex_parse_raises j = Inl (OtherError (ascii ''cookies: unexpected value''))"

definition ex_world_parse_raises :: world where
  "ex_world_parse_raises = ex_world\<lparr>parse_cookies := ex_parse_raises\<rparr>"

definition ex_login_cookies :: cookies where
  "ex_login_cookies = [(ascii ''session'', ascii ''s3cr3t''), (ascii ''acw_tc'', ascii ''abc'')]"

definition ex_login_ok :: "pystr \<Rightarrow> pystr \<Rightarrow> exn + login_result option" where
  "ex_login_ok email password =
     Inr (Some \<lparr>login_cookies = ex_login_cookies, login_api_user = ascii ''42''\<rparr>)"

definition ex_world_login :: world where
  "ex_world_login = ex_world\<lparr>login_agentrouter := ex_login_ok\<rparr>"

definition ex_world_login_post_raises :: world where
  "ex_world_login_post_raises =
     ex_world\<lparr>login_agentrouter := ex_login_ok, http_post := ex_post_raises\<rparr>"

text \<open>
  The success rule of the specification, read on any parsed body: a body that is not an
  object has none of the three fields.
\<close>

definition spec_success_verdict :: "json \<Rightarrow> bool" where
  "spec_success_verdict body =
     (case body of JObj kvs \<Rightarrow> is_success_body kvs | _ \<Rightarrow> False)"

section \<open>Facts about the examples\<close>

lemma ex_user_ok_balance: "fetch_balance ex_rnd (Inr ex_user_ok) = Some \<lparr>quota = Fin 10, used = Fin 2\<rparr>"
  by (simp add: fetch_balance_def ex_user_ok_def balance_of_user_data_def ascii_def
      dict_get_default_def scale_quota_def py_truediv_500000_def py_round2_def
      round_half_even_def ex_rnd_def)

lemma ex_user_401_balance: "fetch_balance ex_rnd (Inr ex_user_401) = None"
  by (simp add: fetch_balance_def ex_user_401_def)

section \<open>The sign-in verdict\<close>

text \<open>
  C1, as stated, fails on AnyRouter: with the sign-in POST answering 404 and a balance
  read in step 1, \<open>_do_anyrouter_checkin\<close> reports a failure. Only the AgentRouter
  function has the keep-alive branch.
\<close>

theorem C1_anyrouter_not_found_fails:
  "status_code ex_not_found = 404 \<and> fetch_balance ex_rnd (Inr ex_user_ok) \<noteq> None \<and>
   fst (do_anyrouter_checkin ex_rnd ex_repr (Inr ex_user_ok) (Inr ex_not_found)) = False"
  by (simp add: ex_user_ok_balance do_anyrouter_checkin_def ex_not_found_def)

text \<open>
  C1 (amended). When the sign-in POST answers HTTP 404: on AgentRouter the outcome is a
  success with the keep-alive message and the balance if step 1 gave a balance, and a
  failure without balance if it gave none; on AnyRouter the outcome is always a failure
  whose message carries the status 404, with the balance of step 1 attached. The
  keep-alive message differs from the message of a real check-in.
\<close>

theorem C1_not_found_outcome:
  assumes "status_code r = 404"
  shows "do_agentrouter_checkin rnd repr ur (Inr r) =
           (case fetch_balance rnd ur of
              Some b \<Rightarrow> (True, msg_keepalive_ok, Some b)
            | None \<Rightarrow> (False, msg_keepalive_failed, None)) \<and>
         do_anyrouter_checkin rnd repr ur (Inr r) = (False, msg_http_status 404, fetch_balance rnd ur) \<and>
         msg_keepalive_ok \<noteq> msg_checkin_ok"
  using assms
  by (simp add: do_agentrouter_checkin_def agentrouter_inner_def do_anyrouter_checkin_def
      msg_keepalive_ok_def msg_checkin_ok_def split: option.splits)

theorem C1_not_found_outcome_witness:
  "status_code ex_not_found = 404 \<and>
   do_agentrouter_checkin ex_rnd ex_repr (Inr ex_user_ok) (Inr ex_not_found) =
     (True, msg_keepalive_ok, Some \<lparr>quota = Fin 10, used = Fin 2\<rparr>) \<and>
   do_agentrouter_checkin ex_rnd ex_repr (Inr ex_user_401) (Inr ex_not_found) =
     (False, msg_keepalive_failed, None) \<and>
   do_anyrouter_checkin ex_rnd ex_repr (Inr ex_user_ok) (Inr ex_not_found) =
     (False, msg_checkin_failed @ ascii ''HTTP 404'', Some \<lparr>quota = Fin 10, used = Fin 2\<rparr>)"
proof -
  have h: "status_code ex_not_found = 404" by (simp add: ex_not_found_def)
  have d: "str_int 404 = ascii ''404''" by code_simp
  show ?thesis
    using h C1_not_found_outcome [OF h, where rnd = ex_rnd and repr = ex_repr
        and ur = "Inr ex_user_ok"]
      C1_not_found_outcome [OF h, where rnd = ex_rnd and repr = ex_repr
        and ur = "Inr ex_user_401"]
    by (simp add: ex_user_ok_balance ex_user_401_balance msg_http_status_def d ascii_def)
qed

text \<open>
  A body that does not parse: on AnyRouter the handler around the parse decides by the
  substring test; on AgentRouter the exception leaves the inner block and the outer
  handler reports it.
\<close>

lemma anyrouter_unparsable:
  assumes "status_code r = 200" and "resp_json r = Inl e"
  shows "do_anyrouter_checkin rnd repr ur (Inr r) =
           (if str_in (ascii ''success'') (py_lower (body_text r))
            then (True, msg_checkin_ok, fetch_balance rnd ur)
            else (False, msg_format_error, fetch_balance rnd ur))"
  using assms by (simp add: do_anyrouter_checkin_def)

lemma agentrouter_unparsable:
  assumes "status_code r = 200" and "resp_json r = Inl (OtherError t)"
  shows "do_agentrouter_checkin rnd repr ur (Inr r) =
           (False, msg_request_exception @ take 50 t, None)"
  using assms by (simp add: do_agentrouter_checkin_def agentrouter_inner_def)

text \<open>
  C2. The claim asks, on both platforms, for the case-insensitive search of \<open>success\<close> in
  the raw body when an HTTP 200 body does not parse. On the body \<open>Success\<close> AnyRouter
  does so and succeeds; AgentRouter returns a failure with the parser's exception text
  and drops the balance read in step 1.
\<close>

theorem C2_agentrouter_plain_success_fails:
  "status_code ex_plain_success = 200 \<and>
   resp_json ex_plain_success = Inl (OtherError (ascii ''Expecting value: line 1 column 1 (char 0)'')) \<and>
   str_in (ascii ''success'') (py_lower (body_text ex_plain_success)) \<and>
   do_anyrouter_checkin ex_rnd ex_repr (Inr ex_user_ok) (Inr ex_plain_success) =
     (True, msg_checkin_ok, Some \<lparr>quota = Fin 10, used = Fin 2\<rparr>) \<and>
   do_agentrouter_checkin ex_rnd ex_repr (Inr ex_user_ok) (Inr ex_plain_success) =
     (False, msg_request_exception @ ascii ''Expecting value: line 1 column 1 (char 0)'', None)"
proof -
  have s: "str_in (ascii ''success'') (py_lower (ascii ''Success''))" by code_simp
  have l: "length (ascii ''Expecting value: line 1 column 1 (char 0)'') \<le> 50"
    by (simp add: ascii_def)
  show ?thesis
    using s l
    by (simp add: ex_plain_success_def anyrouter_unparsable agentrouter_unparsable
        ex_user_ok_balance)
qed

text \<open>
  C7, as stated, fails for a body that parses but is not an object: the JSON string
  \<open>"success"\<close> has none of the three fields, yet on AnyRouter the failed \<open>.get\<close> is
  caught by the same handler as a parse error and the substring test makes it a success.
\<close>

theorem C7_json_string_succeeds:
  "status_code ex_json_string = 200 \<and>
   resp_json ex_json_string = Inr (JStr (ascii ''success'')) \<and>
   \<not> spec_success_verdict (JStr (ascii ''success'')) \<and>
   fst (do_anyrouter_checkin ex_rnd ex_repr (Inr ex_user_401) (Inr ex_json_string)) = True"
proof -
  have s: "str_in (ascii ''success'') (py_lower ([34] @ ascii ''success'' @ [34]))" by code_simp
  show ?thesis
    using s
    by (simp add: ex_json_string_def spec_success_verdict_def do_anyrouter_checkin_def
        judge_body_def)
qed

text \<open>
  C7 (amended). For a sign-in POST answering HTTP 200 with a body that parses as a JSON
  object, both platforms give the same outcome: a success iff \<open>ret == 1\<close> or \<open>code == 0\<close>
  or the field \<open>success\<close> is truthy; otherwise a failure whose message is the failure
  prefix followed by the field \<open>msg\<close>, else the field \<open>message\<close>, else the
  unknown-error text. The balance of step 1 is attached in both cases.
\<close>

theorem C7_json_object_verdict:
  assumes "status_code r = 200" and "resp_json r = Inr (JObj kvs)"
  shows "\<exists>succ msg.
           do_anyrouter_checkin rnd repr ur (Inr r) = (succ, msg, fetch_balance rnd ur) \<and>
           do_agentrouter_checkin rnd repr ur (Inr r) = (succ, msg, fetch_balance rnd ur) \<and>
           (succ \<longleftrightarrow>
              (\<exists>v. map_of kvs (ascii ''ret'') = Some v \<and> py_eq_int v 1) \<or>
              (\<exists>v. map_of kvs (ascii ''code'') = Some v \<and> py_eq_int v 0) \<or>
              (\<exists>v. map_of kvs (ascii ''success'') = Some v \<and> truthy v)) \<and>
           (succ \<longrightarrow> msg = msg_checkin_ok) \<and>
           (\<not> succ \<longrightarrow>
              msg = msg_checkin_failed @
                    py_str repr
                      (case map_of kvs (ascii ''msg'') of
                         Some m \<Rightarrow> m
                       | None \<Rightarrow>
                           (case map_of kvs (ascii ''message'') of
                              Some m \<Rightarrow> m
                            | None \<Rightarrow> JStr msg_unknown_error)))"
proof -
  have v: "is_success_body kvs \<longleftrightarrow>
             (\<exists>v. map_of kvs (ascii ''ret'') = Some v \<and> py_eq_int v 1) \<or>
             (\<exists>v. map_of kvs (ascii ''code'') = Some v \<and> py_eq_int v 0) \<or>
             (\<exists>v. map_of kvs (ascii ''success'') = Some v \<and> truthy v)"
    by (auto simp: is_success_body_def split: option.splits)
  have m: "failure_msg kvs =
             (case map_of kvs (ascii ''msg'') of
                Some m \<Rightarrow> m
              | None \<Rightarrow>
                  (case map_of kvs (ascii ''message'') of
                     Some m \<Rightarrow> m
                   | None \<Rightarrow> JStr msg_unknown_error))"
    by (simp add: failure_msg_def dict_get_default_def split: option.splits)
  show ?thesis
  proof (cases "is_success_body kvs")
    case True
    then have "do_anyrouter_checkin rnd repr ur (Inr r) = (True, msg_checkin_ok, fetch_balance rnd ur)"
      and "do_agentrouter_checkin rnd repr ur (Inr r) = (True, msg_checkin_ok, fetch_balance rnd ur)"
      using assms
      by (simp_all add: do_anyrouter_checkin_def do_agentrouter_checkin_def
          agentrouter_inner_def judge_body_def)
    with True v show ?thesis by blast
  next
    case False
    then have "do_anyrouter_checkin rnd repr ur (Inr r) =
                 (False, msg_checkin_failed @ py_str repr (failure_msg kvs), fetch_balance rnd ur)"
      and "do_agentrouter_checkin rnd repr ur (Inr r) =
                 (False, msg_checkin_failed @ py_str repr (failure_msg kvs), fetch_balance rnd ur)"
      using assms
      by (simp_all add: do_anyrouter_checkin_def do_agentrouter_checkin_def
          agentrouter_inner_def judge_body_def)
    with False v m show ?thesis by force
  qed
qed

theorem C7_json_object_verdict_witness:
  "status_code ex_cooldown = 200 \<and>
   resp_json ex_cooldown =
     Inr (JObj [(ascii ''code'', JInt 5), (ascii ''msg'', JStr (ascii ''cooldown''))]) \<and>
   do_anyrouter_checkin ex_rnd ex_repr (Inr ex_user_ok) (Inr ex_cooldown) =
     (False, msg_checkin_failed @ ascii ''cooldown'', Some \<lparr>quota = Fin 10, used = Fin 2\<rparr>) \<and>
   do_agentrouter_checkin ex_rnd ex_repr (Inr ex_user_ok) (Inr ex_cooldown) =
     (False, msg_checkin_failed @ ascii ''cooldown'', Some \<lparr>quota = Fin 10, used = Fin 2\<rparr>)"
proof -
  have h1: "status_code ex_cooldown = 200" by (simp add: ex_cooldown_def)
  have h2: "resp_json ex_cooldown =
     Inr (JObj [(ascii ''code'', JInt 5), (ascii ''msg'', JStr (ascii ''cooldown''))])"
    by (simp add: ex_cooldown_def)
  show ?thesis
    using h1 h2 C7_json_object_verdict [OF h1 h2, where rnd = ex_rnd and repr = ex_repr
        and ur = "Inr ex_user_ok"]
    by (auto simp add: ex_user_ok_balance ascii_def)
qed

section \<open>The WAF cookie fallback\<close>

text \<open>\<open>_get_waf_cookies\<close> returns \<open>None\<close> instead of an empty dict.\<close>

lemma get_waf_cookies_not_empty: "get_waf_cookies br url t \<noteq> Inr (Some [])"
  by (simp add: get_waf_cookies_def Let_def split: browse.splits)





lemma ex_browser_root:
  "get_waf_cookies ex_browser (ascii ''https://agentrouter.org'') 20000 = Inr None"
  by (simp add: get_waf_cookies_def ex_browser_def waf_names_def ascii_def)

lemma ex_browser_console:
  "get_waf_cookies ex_browser (ascii ''https://agentrouter.org/console'') 20000 =
     Inr (Some [(ascii ''acw_tc'', ascii ''abc'')])"
  by (simp add: get_waf_cookies_def ex_browser_def waf_names_def ascii_def)

lemma ex_browser_login:
  "get_waf_cookies ex_browser (ascii ''https://anyrouter.top/login'') t =
     Inr (Some [(ascii ''acw_tc'', ascii ''xyz'')])"
  by (simp add: get_waf_cookies_def ex_browser_def waf_names_def ascii_def)


section \<open>The balance ledger\<close>

lemma ex_last_main:
  "map_of ex_last_data (ascii ''anyrouter_main'') =
     Some (JObj [(ascii ''quota'', JFloat (Fin 10)), (ascii ''used'', JFloat (Fin 2))])"
  by (simp add: ex_last_data_def)

lemma ex_last_fields:
  "dict_get_default [(ascii ''quota'', JFloat q), (ascii ''used'', JFloat u)] (ascii ''quota'') (JInt 0) =
     JFloat q \<and>
   dict_get_default [(ascii ''quota'', JFloat q), (ascii ''used'', JFloat u)] (ascii ''used'') (JInt 0) =
     JFloat u"
  by (simp add: dict_get_default_def ascii_def)

text \<open>
  C5, as stated, fails for amounts that are not finite: with the same infinite quota in
  the previous and in the current balance, the totals are infinite, their difference is
  a NaN, which differs from 0, and \<open>_show_balance_change\<close> prints a notice although the
  two balances are equal.
\<close>

theorem C5_equal_infinite_balance_notice:
  "map_of ex_last_data_inf (ascii ''anyrouter_main'') =
     Some (JObj [(ascii ''quota'', JFloat PInf), (ascii ''used'', JFloat (Fin 2))]) \<and>
   show_balance_change ex_rnd ex_last_data_inf (ascii ''anyrouter_main'')
     \<lparr>quota = PInf, used = Fin 2\<rparr> = Inr [ChangeHeader, QuotaSame PInf]"
  by (simp add: ex_last_data_inf_def show_balance_change_def ex_last_fields py_add_def
      py_float_sub_def fsub_def ex_rnd_def)

text \<open>
  C5 (amended). \<open>_show_balance_change\<close> prints nothing for a key that the previous
  run's data does not have. For a key whose previous entry is a dict of numbers, so that
  the deltas can be computed, it prints a change notice (which starts with the header
  line) iff the recharge delta \<open>(quota + used) - (last quota + last used)\<close> or the used
  delta \<open>used - last used\<close>, in float arithmetic, differs from 0; so it does for the
  floats that the data file of a previous run holds. In particular it prints nothing
  when the current balance equals the previous one and quota, used and their sum are
  finite. A previous entry that is not a dict raises.
\<close>

theorem C5_show_balance_change:
  "(map_of last_data account_key = None \<longrightarrow>
      show_balance_change rnd last_data account_key cur = Inr []) \<and>
   (\<forall>lb last_total total_recharge used_change quota_change.
      map_of last_data account_key = Some (JObj lb) \<and>
      py_add rnd (dict_get_default lb (ascii ''quota'') (JInt 0))
        (dict_get_default lb (ascii ''used'') (JInt 0)) = Inr last_total \<and>
      py_float_sub rnd (fadd rnd (quota cur) (used cur)) last_total = Inr total_recharge \<and>
      py_float_sub rnd (used cur) (dict_get_default lb (ascii ''used'') (JInt 0)) =
        Inr used_change \<and>
      py_float_sub rnd (quota cur) (dict_get_default lb (ascii ''quota'') (JInt 0)) =
        Inr quota_change \<longrightarrow>
      (\<exists>lines.
         show_balance_change rnd last_data account_key cur = Inr lines \<and>
         (lines \<noteq> [] \<longleftrightarrow> f_nonzero total_recharge \<or> f_nonzero used_change) \<and>
         (lines \<noteq> [] \<longrightarrow> hd lines = ChangeHeader))) \<and>
   (\<forall>lb lq lu.
      map_of last_data account_key = Some (JObj lb) \<and>
      dict_get_default lb (ascii ''quota'') (JInt 0) = JFloat lq \<and>
      dict_get_default lb (ascii ''used'') (JInt 0) = JFloat lu \<longrightarrow>
      (\<exists>lines.
         show_balance_change rnd last_data account_key cur = Inr lines \<and>
         (lines \<noteq> [] \<longleftrightarrow>
            f_nonzero (fsub rnd (fadd rnd (quota cur) (used cur)) (fadd rnd lq lu)) \<or>
            f_nonzero (fsub rnd (used cur) lu)) \<and>
         (lines \<noteq> [] \<longrightarrow> hd lines = ChangeHeader))) \<and>
   (\<forall>lb q u t.
      map_of last_data account_key = Some (JObj lb) \<and>
      dict_get_default lb (ascii ''quota'') (JInt 0) = JFloat (Fin q) \<and>
      dict_get_default lb (ascii ''used'') (JInt 0) = JFloat (Fin u) \<and>
      cur = \<lparr>quota = Fin q, used = Fin u\<rparr> \<and>
      rnd (q + u) = Fin t \<and> rnd 0 = Fin 0 \<longrightarrow>
      show_balance_change rnd last_data account_key cur = Inr []) \<and>
   (\<forall>j.
      map_of last_data account_key = Some j \<and> (case j of JObj lb \<Rightarrow> False | _ \<Rightarrow> True) \<longrightarrow>
      show_balance_change rnd last_data account_key cur = Inl (attribute_error j))"
proof (intro conjI allI impI)
  assume "map_of last_data account_key = None"
  then show "show_balance_change rnd last_data account_key cur = Inr []"
    by (simp add: show_balance_change_def)
next
  fix lb last_total total_recharge used_change quota_change
  assume a: "map_of last_data account_key = Some (JObj lb) \<and>
      py_add rnd (dict_get_default lb (ascii ''quota'') (JInt 0))
        (dict_get_default lb (ascii ''used'') (JInt 0)) = Inr last_total \<and>
      py_float_sub rnd (fadd rnd (quota cur) (used cur)) last_total = Inr total_recharge \<and>
      py_float_sub rnd (used cur) (dict_get_default lb (ascii ''used'') (JInt 0)) =
        Inr used_change \<and>
      py_float_sub rnd (quota cur) (dict_get_default lb (ascii ''quota'') (JInt 0)) =
        Inr quota_change"
  then show "\<exists>lines.
         show_balance_change rnd last_data account_key cur = Inr lines \<and>
         (lines \<noteq> [] \<longleftrightarrow> f_nonzero total_recharge \<or> f_nonzero used_change) \<and>
         (lines \<noteq> [] \<longrightarrow> hd lines = ChangeHeader)"
    by (simp add: show_balance_change_def Let_def)
next
  fix lb lq lu
  assume a: "map_of last_data account_key = Some (JObj lb) \<and>
      dict_get_default lb (ascii ''quota'') (JInt 0) = JFloat lq \<and>
      dict_get_default lb (ascii ''used'') (JInt 0) = JFloat lu"
  then show "\<exists>lines.
         show_balance_change rnd last_data account_key cur = Inr lines \<and>
         (lines \<noteq> [] \<longleftrightarrow>
            f_nonzero (fsub rnd (fadd rnd (quota cur) (used cur)) (fadd rnd lq lu)) \<or>
            f_nonzero (fsub rnd (used cur) lu)) \<and>
         (lines \<noteq> [] \<longrightarrow> hd lines = ChangeHeader)"
    by (simp add: show_balance_change_def Let_def py_add_def py_float_sub_def)
next
  fix lb q u t
  assume a: "map_of last_data account_key = Some (JObj lb) \<and>
      dict_get_default lb (ascii ''quota'') (JInt 0) = JFloat (Fin q) \<and>
      dict_get_default lb (ascii ''used'') (JInt 0) = JFloat (Fin u) \<and>
      cur = \<lparr>quota = Fin q, used = Fin u\<rparr> \<and>
      rnd (q + u) = Fin t \<and> rnd 0 = Fin 0"
  then show "show_balance_change rnd last_data account_key cur = Inr []"
    by (simp add: show_balance_change_def Let_def py_add_def py_float_sub_def fsub_def)
next
  fix j
  assume "map_of last_data account_key = Some j \<and> (case j of JObj lb \<Rightarrow> False | _ \<Rightarrow> True)"
  then show "show_balance_change rnd last_data account_key cur = Inl (attribute_error j)"
    by (cases j) (simp_all add: show_balance_change_def)
qed

theorem C5_show_balance_change_witness:
  "map_of ex_last_data (ascii ''agentrouter_main'') = None \<and>
   show_balance_change ex_rnd ex_last_data (ascii ''agentrouter_main'')
     \<lparr>quota = Fin 10, used = Fin 2\<rparr> = Inr [] \<and>
   show_balance_change ex_rnd ex_last_data (ascii ''anyrouter_main'')
     \<lparr>quota = Fin 10, used = Fin 2\<rparr> = Inr [] \<and>
   (\<exists>lines. show_balance_change ex_rnd ex_last_data (ascii ''anyrouter_main'')
              \<lparr>quota = Fin 9, used = Fin 3\<rparr> = Inr lines \<and> lines \<noteq> [] \<and>
              hd lines = ChangeHeader) \<and>
   (\<exists>lines. show_balance_change ex_rnd ex_last_data (ascii ''anyrouter_main'')
              \<lparr>quota = Fin 15, used = Fin 2\<rparr> = Inr lines \<and> lines \<noteq> [] \<and>
              hd lines = ChangeHeader) \<and>
   show_balance_change ex_rnd [(ascii ''anyrouter_main'', JFloat (Fin 10))]
     (ascii ''anyrouter_main'') \<lparr>quota = Fin 10, used = Fin 2\<rparr> =
     Inl (attribute_error (JFloat (Fin 10)))"
proof -
  have n: "map_of ex_last_data (ascii ''agentrouter_main'') = None"
    by (simp add: ex_last_data_def ascii_def)
  have a: "py_add ex_rnd (JFloat (Fin 10)) (JFloat (Fin 2)) = Inr (JFloat (Fin 12))"
    by (simp add: py_add_def ex_rnd_def)
  have s1: "py_float_sub ex_rnd (fadd ex_rnd (Fin 9) (Fin 3)) (JFloat (Fin 12)) = Inr (Fin 0)"
    by (simp add: py_float_sub_def fsub_def ex_rnd_def)
  have s2: "py_float_sub ex_rnd (Fin 3) (JFloat (Fin 2)) = Inr (Fin 1)"
    by (simp add: py_float_sub_def fsub_def ex_rnd_def)
  have s3: "py_float_sub ex_rnd (Fin 9) (JFloat (Fin 10)) = Inr (Fin (- 1))"
    by (simp add: py_float_sub_def fsub_def ex_rnd_def)
  have f: "fsub ex_rnd (fadd ex_rnd (Fin 15) (Fin 2)) (fadd ex_rnd (Fin 10) (Fin 2)) = Fin 5"
    by (simp add: fsub_def ex_rnd_def)
  have r: "ex_rnd (10 + 2) = Fin 12 \<and> ex_rnd 0 = Fin 0" by (simp add: ex_rnd_def)
  have m: "map_of [(ascii ''anyrouter_main'', JFloat (Fin 10))] (ascii ''anyrouter_main'') =
      Some (JFloat (Fin 10))"
    by simp
  have t1: "show_balance_change ex_rnd ex_last_data (ascii ''agentrouter_main'')
     \<lparr>quota = Fin 10, used = Fin 2\<rparr> = Inr []"
    using n C5_show_balance_change [of ex_last_data "ascii ''agentrouter_main''" ex_rnd
        "\<lparr>quota = Fin 10, used = Fin 2\<rparr>"]
    by simp
  have t2: "show_balance_change ex_rnd ex_last_data (ascii ''anyrouter_main'')
     \<lparr>quota = Fin 10, used = Fin 2\<rparr> = Inr []"
    using ex_last_main ex_last_fields [of "Fin 10" "Fin 2"] r
      C5_show_balance_change [of ex_last_data "ascii ''anyrouter_main''" ex_rnd
        "\<lparr>quota = Fin 10, used = Fin 2\<rparr>"]
    by simp
  have t3: "\<exists>lines. show_balance_change ex_rnd ex_last_data (ascii ''anyrouter_main'')
              \<lparr>quota = Fin 9, used = Fin 3\<rparr> = Inr lines \<and> lines \<noteq> [] \<and>
              hd lines = ChangeHeader"
  proof -
    from C5_show_balance_change [of ex_last_data "ascii ''anyrouter_main''" ex_rnd
        "\<lparr>quota = Fin 9, used = Fin 3\<rparr>"]
    have "\<forall>lb last_total total_recharge used_change quota_change.
      map_of ex_last_data (ascii ''anyrouter_main'') = Some (JObj lb) \<and>
      py_add ex_rnd (dict_get_default lb (ascii ''quota'') (JInt 0))
        (dict_get_default lb (ascii ''used'') (JInt 0)) = Inr last_total \<and>
      py_float_sub ex_rnd (fadd ex_rnd (quota \<lparr>quota = Fin 9, used = Fin 3\<rparr>)
        (used \<lparr>quota = Fin 9, used = Fin 3\<rparr>)) last_total = Inr total_recharge \<and>
      py_float_sub ex_rnd (used \<lparr>quota = Fin 9, used = Fin 3\<rparr>)
        (dict_get_default lb (ascii ''used'') (JInt 0)) = Inr used_change \<and>
      py_float_sub ex_rnd (quota \<lparr>quota = Fin 9, used = Fin 3\<rparr>)
        (dict_get_default lb (ascii ''quota'') (JInt 0)) = Inr quota_change \<longrightarrow>
      (\<exists>lines.
         show_balance_change ex_rnd ex_last_data (ascii ''anyrouter_main'')
           \<lparr>quota = Fin 9, used = Fin 3\<rparr> = Inr lines \<and>
         (lines \<noteq> [] \<longleftrightarrow> f_nonzero total_recharge \<or> f_nonzero used_change) \<and>
         (lines \<noteq> [] \<longrightarrow> hd lines = ChangeHeader))"
      by blast
    from this [rule_format, of "[(ascii ''quota'', JFloat (Fin 10)), (ascii ''used'', JFloat (Fin 2))]"
        "JFloat (Fin 12)" "Fin 0" "Fin 1" "Fin (- 1)"]
      ex_last_main ex_last_fields [of "Fin 10" "Fin 2"] a s1 s2 s3
    show ?thesis by auto
  qed
  have t4: "\<exists>lines. show_balance_change ex_rnd ex_last_data (ascii ''anyrouter_main'')
              \<lparr>quota = Fin 15, used = Fin 2\<rparr> = Inr lines \<and> lines \<noteq> [] \<and>
              hd lines = ChangeHeader"
  proof -
    from C5_show_balance_change [of ex_last_data "ascii ''anyrouter_main''" ex_rnd
        "\<lparr>quota = Fin 15, used = Fin 2\<rparr>"]
    have "\<forall>lb lq lu.
      map_of ex_last_data (ascii ''anyrouter_main'') = Some (JObj lb) \<and>
      dict_get_default lb (ascii ''quota'') (JInt 0) = JFloat lq \<and>
      dict_get_default lb (ascii ''used'') (JInt 0) = JFloat lu \<longrightarrow>
      (\<exists>lines.
         show_balance_change ex_rnd ex_last_data (ascii ''anyrouter_main'')
           \<lparr>quota = Fin 15, used = Fin 2\<rparr> = Inr lines \<and>
         (lines \<noteq> [] \<longleftrightarrow>
            f_nonzero (fsub ex_rnd (fadd ex_rnd (quota \<lparr>quota = Fin 15, used = Fin 2\<rparr>)
                 (used \<lparr>quota = Fin 15, used = Fin 2\<rparr>)) (fadd ex_rnd lq lu)) \<or>
            f_nonzero (fsub ex_rnd (used \<lparr>quota = Fin 15, used = Fin 2\<rparr>) lu)) \<and>
         (lines \<noteq> [] \<longrightarrow> hd lines = ChangeHeader))"
      by blast
    from this [rule_format, of "[(ascii ''quota'', JFloat (Fin 10)), (ascii ''used'', JFloat (Fin 2))]"
        "Fin 10" "Fin 2"]
      ex_last_main ex_last_fields [of "Fin 10" "Fin 2"] f
    show ?thesis by auto
  qed
  have t5: "show_balance_change ex_rnd [(ascii ''anyrouter_main'', JFloat (Fin 10))]
     (ascii ''anyrouter_main'') \<lparr>quota = Fin 10, used = Fin 2\<rparr> =
     Inl (attribute_error (JFloat (Fin 10)))"
    using m C5_show_balance_change [of "[(ascii ''anyrouter_main'', JFloat (Fin 10))]"
        "ascii ''anyrouter_main''" ex_rnd "\<lparr>quota = Fin 10, used = Fin 2\<rparr>"]
    by simp
  from n t1 t2 t3 t4 t5 show ?thesis by simp
qed

text \<open>
  C4, as stated, fails when the writes raise: both save functions catch the exception
  and log it, and \<open>_check_balance_change\<close> returns with neither file written although
  the current-run map is not empty.
\<close>

theorem C4_failed_writes_persist_nothing:
  "current_balances ex_checker_full \<noteq> [] \<and>
   check_balance_change ex_codec (ex_writes_denied ex_disk) ex_checker_full ex_disk =
     (ex_checker_full\<lparr>balance_changed := True\<rparr>, ex_disk) \<and>
   hash_file ex_disk = None \<and> data_file ex_disk = None"
  by (simp add: check_balance_change_def ex_checker_full_def ex_writes_denied_def ex_disk_def
      save_balance_hash_def save_balance_data_def Let_def)

text \<open>
  C4 (amended). \<open>_check_balance_change\<close> changes nothing, in the object and on disk,
  when the current-run balance map is empty. Otherwise it sets \<open>balance_changed\<close>: to
  true when there was no previous hash, else to whether the new fingerprint differs from
  the previous hash; nothing else of the object changes; and it issues both writes, of
  the new hash and of the whole current-run map, whatever the verdict. A write that is
  carried out leaves the file with exactly that content; a write that raises leaves the
  file as the failure left it.
\<close>

theorem C4_check_balance_change:
  "(current_balances st = [] \<longrightarrow> check_balance_change c ws st d = (st, d)) \<and>
   (current_balances st \<noteq> [] \<longrightarrow>
      (let h = generate_balance_hash c (current_balances st);
           st' = fst (check_balance_change c ws st d);
           d' = snd (check_balance_change c ws st d)
       in (last_balance_hash st = None \<longrightarrow> balance_changed st') \<and>
          (last_balance_hash st \<noteq> None \<longrightarrow>
             (balance_changed st' \<longleftrightarrow> last_balance_hash st \<noteq> Some h)) \<and>
          st' = st\<lparr>balance_changed := balance_changed st'\<rparr> \<and>
          hash_file d' =
            (case hash_write ws of Written \<Rightarrow> Some h | WriteFailed e left \<Rightarrow> left) \<and>
          data_file d' =
            (case data_write ws of
               Written \<Rightarrow> Some (current_balances st)
             | WriteFailed e left \<Rightarrow> left)))"
  by (auto simp: check_balance_change_def Let_def save_balance_hash_def save_balance_data_def
      split: write_result.splits)

theorem C4_check_balance_change_witness:
  "check_balance_change ex_codec ex_writes ex_checker ex_disk = (ex_checker, ex_disk) \<and>
   current_balances ex_checker_full \<noteq> [] \<and>
   last_balance_hash ex_checker_full = None \<and>
   check_balance_change ex_codec ex_writes ex_checker_full ex_disk =
     (ex_checker_full\<lparr>balance_changed := True\<rparr>,
      \<lparr>hash_file = Some (replicate 16 48),
       data_file = Some [(ascii ''anyrouter_main'', ex_balance)]\<rparr>) \<and>
   last_balance_hash (ex_checker_full\<lparr>last_balance_hash := Some (replicate 16 48),
                                      balance_changed := True\<rparr>) \<noteq> None \<and>
   check_balance_change ex_codec ex_writes
     (ex_checker_full\<lparr>last_balance_hash := Some (replicate 16 48), balance_changed := True\<rparr>)
     ex_disk =
     (ex_checker_full\<lparr>last_balance_hash := Some (replicate 16 48), balance_changed := False\<rparr>,
      \<lparr>hash_file = Some (replicate 16 48),
       data_file = Some [(ascii ''anyrouter_main'', ex_balance)]\<rparr>)"
proof -
  have h: "generate_balance_hash ex_codec bs = replicate 16 48" for bs
    by (simp add: generate_balance_hash_def ex_codec_def)
  show ?thesis
    using C4_check_balance_change [of ex_checker ex_codec ex_writes ex_disk]
      C4_check_balance_change [of ex_checker_full ex_codec ex_writes ex_disk]
      C4_check_balance_change [of "ex_checker_full\<lparr>last_balance_hash := Some (replicate 16 48),
                 balance_changed := True\<rparr>" ex_codec ex_writes ex_disk]
    by (simp add: h ex_checker_def ex_checker_full_def ex_writes_def ex_disk_def Let_def
        check_balance_change_def save_balance_hash_def save_balance_data_def)
qed

text \<open>
  The fingerprint. Sorting by key makes the order of insertion irrelevant, and only the
  quota of each entry is serialised.
\<close>

lemma sort_key_fst_unique:
  fixes xs ys :: "('k::linorder \<times> 'v) list"
  assumes "distinct (map fst xs)" "distinct (map fst ys)" "set xs = set ys"
  shows "sort_key fst xs = sort_key fst ys"
proof (rule properties_for_sort_key)
  from assms have "distinct xs" "distinct ys" by (simp_all add: distinct_map)
  with assms(3) show "mset (sort_key fst ys) = mset xs"
    by (simp add: set_eq_iff_mset_eq_distinct)
next
  fix k assume "k \<in> set (sort_key fst ys)"
  then have k: "k \<in> set ys" "k \<in> set xs" using assms(3) by auto
  have u: "filter (\<lambda>x. fst k = fst x) zs = [k]"
    if "distinct (map fst zs)" "k \<in> set zs" for zs :: "('k \<times> 'v) list"
    using that
  proof (induction zs)
    case Nil
    then show ?case by simp
  next
    case (Cons z zs)
    show ?case
    proof (cases "z = k")
      case True
      with Cons.prems have "fst k \<notin> fst ` set zs" by simp
      then have "\<forall>x\<in>set zs. fst x \<noteq> fst k" by (metis imageI)
      then have "filter (\<lambda>x. fst k = fst x) zs = []" by (auto simp: filter_empty_conv)
      with True show ?thesis by simp
    next
      case False
      with Cons.prems have "k \<in> set zs" by simp
      moreover from this Cons.prems have "fst z \<noteq> fst k" by (metis distinct.simps(2) imageI list.simps(9) set_map)
      ultimately have "k \<in> set zs" "fst z \<noteq> fst k" by simp_all
      with Cons show ?thesis by auto
    qed
  qed
  have "filter (\<lambda>x. fst k = fst x) (sort_key fst ys) = sort_key fst (filter (\<lambda>x. fst k = fst x) ys)"
    by (simp add: filter_sort)
  also have "\<dots> = [k]" using u [OF assms(2) k(1)] by simp
  finally show "filter (\<lambda>x. fst k = fst x) (sort_key fst ys) = filter (\<lambda>x. fst k = fst x) xs"
    using u [OF assms(1) k(2)] by simp
next
  show "sorted (map fst (sort_key fst ys))" by simp
qed

text \<open>
  Two balance maps with the same quota under every key have the same fingerprint,
  whatever their used amounts and the order of their keys.
\<close>

lemma hash_ignores_used_and_order:
  assumes "distinct (map fst xs)" "distinct (map fst ys)"
    and "map_of (map (\<lambda>(k, v). (k, quota v)) xs) = map_of (map (\<lambda>(k, v). (k, quota v)) ys)"
  shows "generate_balance_hash c xs = generate_balance_hash c ys"
proof -
  let ?q = "\<lambda>zs :: (pystr \<times> balance) list. map (\<lambda>(k, v). (k, quota v)) zs"
  have f: "fst \<circ> (\<lambda>(k, v). (k, quota v)) = (fst :: pystr \<times> balance \<Rightarrow> pystr)"
    by (auto simp: fun_eq_iff)
  have "distinct (map fst (?q xs))" "distinct (map fst (?q ys))"
    using assms(1,2) by (simp_all add: f)
  with assms(3) have "set (?q xs) = set (?q ys)"
    by (simp add: map_of_inject_set)
  with assms(1,2) have "sort_key fst (?q xs) = sort_key fst (?q ys)"
    by (intro sort_key_fst_unique) (simp_all add: f)
  then show ?thesis
    by (simp add: generate_balance_hash_def json_dumps_sorted_def)
qed

text \<open>The fingerprint keeps 16 characters of a digest of 64.\<close>

lemma hash_length:
  assumes "\<And>s. length (sha256_hexdigest c s) = 64"
  shows "length (generate_balance_hash c xs) = 16"
  by (simp add: generate_balance_hash_def assms)

section \<open>One account\<close>

lemma name_of_result [simp]: "name (make_result p n s m b) = n"
  by (simp add: make_result_def)

text \<open>
  The end of both bodies under the handler: what is returned for each outcome of the
  sign-in, and for a delta report that raises.
\<close>

lemma finish_checkin:
  "handle_exception p n (record_balance rnd p pre n st (succ, msg, bal)) =
     (case bal of
        None \<Rightarrow> (make_result p n succ msg None, st, [])
      | Some b \<Rightarrow>
          (case show_balance_change rnd (last_balance_data st) (pre @ n) b of
             Inr lines \<Rightarrow>
               (make_result p n succ msg (Some b),
                st\<lparr>current_balances := AList.update (pre @ n) b (current_balances st)\<rparr>, lines)
           | Inl e \<Rightarrow>
               (make_result p n False (msg_checkin_exception @ take 50 (exn_str e)) None,
                st\<lparr>current_balances := AList.update (pre @ n) b (current_balances st)\<rparr>, [])))"
  by (simp add: handle_exception_def record_balance_def Let_def split: option.splits sum.splits)

lemma handle_raised:
  "handle_exception p n (Inl e, st) =
     (make_result p n False (msg_checkin_exception @ take 50 (exn_str e)) None, st, [])"
  by (simp add: handle_exception_def)

lemma handle_returned:
  "handle_exception p n (Inr (r, lines), st) = (r, st, lines)"
  by (simp add: handle_exception_def)

text \<open>
  The ways through the body of \<open>checkin_anyrouter\<close>: the sign-in is reached, or cookie
  parsing or the browser launch raises.
\<close>

lemma anyrouter_reach:
  assumes "get_api_user a \<noteq> []"
    and "parse_cookies w (get_cookies a) = Inr uc" and "uc \<noteq> []"
    and "get_waf_cookies (browser w) anyrouter_login 30000 = Inr (Some wc)"
  shows "checkin_anyrouter_body rnd w st a n =
           record_balance rnd (ascii ''AnyRouter'') (ascii ''anyrouter_'') n st
             (call_anyrouter_checkin rnd w (dict_merge wc uc) (get_api_user a))"
proof -
  from assms(4) get_waf_cookies_not_empty [of "browser w" anyrouter_login 30000]
  have "wc \<noteq> []" by auto
  with assms show ?thesis
    by (simp add: checkin_anyrouter_body_def Let_def)
qed

lemma anyrouter_parse_raises:
  assumes "get_api_user a \<noteq> []" and "parse_cookies w (get_cookies a) = Inl e"
  shows "checkin_anyrouter_body rnd w st a n = (Inl e, st)"
  using assms by (simp add: checkin_anyrouter_body_def Let_def)

lemma anyrouter_launch_raises:
  assumes "get_api_user a \<noteq> []"
    and "parse_cookies w (get_cookies a) = Inr uc" and "uc \<noteq> []"
    and "browser w anyrouter_login 30000 = LaunchFailed e"
  shows "checkin_anyrouter_body rnd w st a n = (Inl e, st)"
  using assms by (simp add: checkin_anyrouter_body_def Let_def get_waf_cookies_def)

text \<open>
  The two ways to a session on AgentRouter, by password and by cookies, and what the
  body does with each result.
\<close>

lemma session_login:
  assumes "get_email a \<noteq> []" and "get_password a \<noteq> []"
  shows "agentrouter_session w a n =
           (case login_agentrouter w (get_email a) (get_password a) of
              Inl e \<Rightarrow> Inl e
            | Inr None \<Rightarrow>
                Inr (Inl (make_result (ascii ''AgentRouter'') n False msg_login_failed None))
            | Inr (Some lr) \<Rightarrow> Inr (Inr (login_cookies lr, login_api_user lr)))"
  using assms by (simp add: agentrouter_session_def Let_def)

lemma session_cookies:
  assumes "\<not> (get_email a \<noteq> [] \<and> get_password a \<noteq> [])"
    and "get_api_user a \<noteq> []"
  shows "agentrouter_session w a n =
           (case parse_cookies w (get_cookies a) of
              Inl e \<Rightarrow> Inl e
            | Inr uc \<Rightarrow>
                if uc = []
                then Inr (Inl (make_result (ascii ''AgentRouter'') n False msg_bad_cookies None))
                else (case snd (get_waf_cookies_with_fallback (browser w) agentrouter_urls) of
                        Inl e \<Rightarrow> Inl e
                      | Inr waf \<Rightarrow> Inr (Inr (merge_waf waf uc, get_api_user a))))"
  using assms by (auto simp: agentrouter_session_def Let_def split: sum.splits)

lemma agentrouter_reach:
  assumes "agentrouter_session w a n = Inr (Inr (cs, u))"
  shows "checkin_agentrouter_body rnd w st a n =
           record_balance rnd (ascii ''AgentRouter'') (ascii ''agentrouter_'') n st
             (call_agentrouter_checkin rnd w cs u)"
  using assms by (simp add: checkin_agentrouter_body_def)

lemma agentrouter_raises:
  assumes "agentrouter_session w a n = Inl e"
  shows "checkin_agentrouter_body rnd w st a n = (Inl e, st)"
  using assms by (simp add: checkin_agentrouter_body_def)

text \<open>
  A sign-in POST that raises, and one that returns: the balance of step 1 is dropped
  by the handler and kept otherwise.
\<close>

lemma post_raises_anyrouter:
  assumes "http_post w anyrouter_sign_in cs u = Inl e"
  shows "call_anyrouter_checkin rnd w cs u =
           (False, msg_request_exception @ take 50 (exn_str e), None)"
  using assms by (simp add: call_anyrouter_checkin_def do_anyrouter_checkin_def)

lemma post_raises_agentrouter:
  assumes "http_post w agentrouter_sign_in cs u = Inl (OtherError t)"
  shows "call_agentrouter_checkin rnd w cs u =
           (False, msg_request_exception @ take 50 t, None)"
  using assms
  by (simp add: call_agentrouter_checkin_def do_agentrouter_checkin_def agentrouter_inner_def)

lemma anyrouter_post_returns:
  "snd (snd (do_anyrouter_checkin rnd repr ur (Inr resp))) = fetch_balance rnd ur"
  by (simp add: do_anyrouter_checkin_def judge_body_def Let_def split: sum.splits json.splits)

lemma agentrouter_post_returns:
  "status_code resp \<noteq> 200 \<Longrightarrow>
   snd (snd (do_agentrouter_checkin rnd repr ur (Inr resp))) = fetch_balance rnd ur"
  by (simp add: do_agentrouter_checkin_def agentrouter_inner_def Let_def)

lemma agentrouter_post_object:
  "status_code resp = 200 \<Longrightarrow> resp_json resp = Inr (JObj kvs) \<Longrightarrow>
   snd (snd (do_agentrouter_checkin rnd repr ur (Inr resp))) = fetch_balance rnd ur"
  by (simp add: do_agentrouter_checkin_def agentrouter_inner_def judge_body_def Let_def)

text \<open>
  Each loop of \<open>run_all\<close> yields one result per account, under the account's name,
  and sleeps after each.
\<close>

lemma checkin_loop_length:
  "length (fst (checkin_loop p chk st i as)) = length as"
  by (induction as arbitrary: st i) (simp_all add: case_prod_beta)

lemma paced_Suc: "paced p i (Suc n) = [Processing p i, Sleep 2] @ paced p (Suc i) n"
  by (simp add: paced_def upt_conv_Cons del: upt_Suc)

lemma checkin_loop_pacing:
  "filter is_pacing (snd (snd (checkin_loop p chk st i as))) = paced p i (length as)"
proof (induction as arbitrary: st i)
  case Nil
  show ?case by (simp add: paced_def)
next
  case (Cons a as)
  then show ?case
    by (simp add: case_prod_beta paced_Suc)
qed

lemma run_all_pacing:
  "filter is_pacing (run_events (run_all rnd c ws wa wg st d any agent)) =
     paced (ascii ''AnyRouter'') 0 (length any) @ paced (ascii ''AgentRouter'') 0 (length agent)"
  by (simp add: run_all_def case_prod_beta checkin_loop_pacing)

lemma checkin_loop_names:
  assumes "\<And>j st a. name (fst (chk j st a j)) = nm a j"
  shows "map name (fst (checkin_loop p chk st i as)) = map (\<lambda>(j, a). nm a j) (enumerate i as)"
  by (induction as arbitrary: st i) (simp_all add: case_prod_beta assms)

lemma record_balance_name:
  "name (fst (handle_exception p n (record_balance rnd p pre n st out))) = n"
  by (cases out) (simp add: finish_checkin split: option.splits sum.splits)

lemma checkin_anyrouter_name:
  "name (fst (checkin_anyrouter rnd w st a i)) = name_of (ascii ''AnyRouter'') a i"
  by (simp add: checkin_anyrouter_def checkin_anyrouter_body_def Let_def handle_raised
      handle_returned record_balance_name split: sum.splits option.splits)

lemma session_early_name:
  assumes "agentrouter_session w a n = Inr (Inl early)"
  shows "name early = n"
proof (cases "get_email a \<noteq> [] \<and> get_password a \<noteq> []")
  case True
  with assms show ?thesis
    by (simp add: agentrouter_session_def Let_def split: sum.splits option.splits) auto
next
  case False
  with assms show ?thesis
    by (simp add: agentrouter_session_def Let_def split: sum.splits if_splits) auto
qed

lemma checkin_agentrouter_name:
  "name (fst (checkin_agentrouter rnd w st a i)) = name_of (ascii ''AgentRouter'') a i"
proof (cases "agentrouter_session w a (name_of (ascii ''AgentRouter'') a i)")
  case (Inl e)
  then show ?thesis
    by (simp add: checkin_agentrouter_def checkin_agentrouter_body_def handle_exception_def)
next
  case (Inr s)
  show ?thesis
  proof (cases s)
    case (Inl early)
    with Inr session_early_name [of w a _ early] show ?thesis
      by (simp add: checkin_agentrouter_def checkin_agentrouter_body_def handle_exception_def)
  next
    case (Inr session)
    with \<open>agentrouter_session w a (name_of (ascii ''AgentRouter'') a i) = Inr s\<close> show ?thesis
      by (cases session)
         (simp add: checkin_agentrouter_def checkin_agentrouter_body_def Let_def
            record_balance_name)
  qed
qed

lemma run_all_names:
  "map name (run_results (run_all rnd c ws wa wg st d any agent)) =
     map (\<lambda>(j, a). name_of (ascii ''AnyRouter'') a j) (enumerate 0 any) @
     map (\<lambda>(j, a). name_of (ascii ''AgentRouter'') a j) (enumerate 0 agent)"
proof -
  have 1: "map name (fst (checkin_loop (ascii ''AnyRouter'') (\<lambda>i. checkin_anyrouter rnd (wa i)) st 0 any)) =
      map (\<lambda>(j, a). name_of (ascii ''AnyRouter'') a j) (enumerate 0 any)"
    by (rule checkin_loop_names) (rule checkin_anyrouter_name)
  have 2: "map name (fst (checkin_loop (ascii ''AgentRouter'') (\<lambda>i. checkin_agentrouter rnd (wg i)) st' 0 agent)) =
      map (\<lambda>(j, a). name_of (ascii ''AgentRouter'') a j) (enumerate 0 agent)" for st'
    by (rule checkin_loop_names) (rule checkin_agentrouter_name)
  show ?thesis
    by (simp add: run_all_def case_prod_beta 1 2)
qed

text \<open>
  The example account in the example worlds.
\<close>

lemma ex_account_fields:
  "get_api_user ex_account = ascii ''42'' \<and>
   get_cookies ex_account = JObj [(ascii ''session'', JStr (ascii ''s3cr3t''))] \<and>
   name_of p ex_account i = ascii ''main'' \<and>
   ascii ''42'' \<noteq> []"
  by (simp add: get_api_user_def get_cookies_def name_of_def ex_account_def ascii_def)

lemma ex_account_cookies:
  "ex_parse_cookies (JObj [(ascii ''session'', JStr (ascii ''s3cr3t''))]) =
     Inr [(ascii ''session'', ascii ''s3cr3t'')]"
  by (simp add: ex_parse_cookies_def List.map_filter_simps)

lemma ex_merged:
  "dict_merge [(ascii ''acw_tc'', ascii ''xyz'')] [(ascii ''session'', ascii ''s3cr3t'')] =
     ex_cookies"
  by (simp add: dict_merge_def ex_cookies_def ascii_def)

lemma ex_anyrouter_login:
  "get_waf_cookies ex_browser anyrouter_login 30000 = Inr (Some [(ascii ''acw_tc'', ascii ''xyz'')])"
  by (simp add: anyrouter_login_def ex_browser_login)

lemma ex_anyrouter_checkin:
  assumes "parse_cookies w = ex_parse_cookies" and "browser w = ex_browser"
  shows "checkin_anyrouter rnd w st ex_account i =
           handle_exception (ascii ''AnyRouter'') (ascii ''main'')
             (record_balance rnd (ascii ''AnyRouter'') (ascii ''anyrouter_'') (ascii ''main'') st
                (call_anyrouter_checkin rnd w ex_cookies (ascii ''42'')))"
  using anyrouter_reach [of ex_account w "[(ascii ''session'', ascii ''s3cr3t'')]"
      "[(ascii ''acw_tc'', ascii ''xyz'')]" rnd st "ascii ''main''"]
  by (simp add: checkin_anyrouter_def Let_def ex_account_fields assms ex_account_cookies
      ex_anyrouter_login ex_merged)

lemma ex_world_call:
  "call_anyrouter_checkin ex_rnd ex_world ex_cookies (ascii ''42'') =
     (False, msg_checkin_failed @ ascii ''cooldown'', Some \<lparr>quota = Fin 10, used = Fin 2\<rparr>)"
proof -
  have v: "judge_body r (JObj [(ascii ''code'', JInt 5), (ascii ''msg'', JStr (ascii ''cooldown''))]) b =
      Inr (False, msg_checkin_failed @ ascii ''cooldown'', b)" for r b
    by (simp add: judge_body_def is_success_body_def failure_msg_def dict_get_default_def
        ascii_def)
  show ?thesis
    by (simp add: call_anyrouter_checkin_def ex_world_def ex_get_def ex_post_def
        do_anyrouter_checkin_def ex_user_ok_balance ex_cooldown_def v)
qed

lemma ex_show_same:
  "show_balance_change ex_rnd ex_last_data (ascii ''anyrouter_main'')
     \<lparr>quota = Fin 10, used = Fin 2\<rparr> = Inr []"
  by (simp add: show_balance_change_def ex_last_main ex_last_fields py_add_def
      py_float_sub_def fsub_def ex_rnd_def)

lemma ex_show_null:
  "show_balance_change ex_rnd ex_last_data_null (ascii ''anyrouter_main'')
     \<lparr>quota = Fin 10, used = Fin 2\<rparr> =
     Inl (OtherError ex_type_error)"
proof -
  have f: "dict_get_default [(ascii ''quota'', JNull), (ascii ''used'', JFloat (Fin 2))]
             (ascii ''quota'') (JInt 0) = JNull \<and>
           dict_get_default [(ascii ''quota'', JNull), (ascii ''used'', JFloat (Fin 2))]
             (ascii ''used'') (JInt 0) = JFloat (Fin 2)"
    by (simp add: dict_get_default_def ascii_def)
  show ?thesis
    by (simp add: show_balance_change_def ex_last_data_null_def f py_add_def
        unsupported_operand_def ex_type_error_def) (simp add: ascii_def)
qed

lemma ex_account_no_login:
  "\<not> (get_email ex_account \<noteq> [] \<and> get_password ex_account \<noteq> [])"
  by (simp add: get_email_def ex_account_def)

lemma ex_agent_account_fields:
  "get_email ex_agent_account = ascii ''a@b.c'' \<and>
   get_password ex_agent_account = ascii ''pw'' \<and>
   name_of p ex_agent_account i = ascii ''agent'' \<and>
   ascii ''a@b.c'' \<noteq> [] \<and> ascii ''pw'' \<noteq> []"
  by (simp add: get_email_def get_password_def name_of_def ex_agent_account_def ascii_def)

lemma ex_fallback:
  "snd (get_waf_cookies_with_fallback ex_browser agentrouter_urls) =
     Inr (Some [(ascii ''acw_tc'', ascii ''abc'')])"
  by (simp add: agentrouter_urls_def ex_browser_root ex_browser_console)

lemma ex_launch_error_50:
  "take 50 ex_launch_error = ascii ''BrowserType.launch_persistent_context: Executable ''"
  by (simp add: ex_launch_error_def ascii_def)

lemma ex_short_errors:
  "take 50 (ascii ''timed out'') = ascii ''timed out'' \<and>
   take 50 (ascii ''cookies: unexpected value'') = ascii ''cookies: unexpected value''"
  by (simp add: ascii_def)

lemma ex_cooldown_verdict:
  "judge_body r (JObj [(ascii ''code'', JInt 5), (ascii ''msg'', JStr (ascii ''cooldown''))]) b =
     Inr (False, msg_checkin_failed @ ascii ''cooldown'', b)"
  by (simp add: judge_body_def is_success_body_def failure_msg_def dict_get_default_def
      ascii_def)

lemma ex_agent_call:
  assumes "http_get w = ex_get" and "http_post w = ex_post"
  shows "call_agentrouter_checkin ex_rnd w cs u =
     (False, msg_checkin_failed @ ascii ''cooldown'', Some \<lparr>quota = Fin 10, used = Fin 2\<rparr>)"
  by (simp add: call_agentrouter_checkin_def assms ex_get_def ex_post_def
      do_agentrouter_checkin_def agentrouter_inner_def ex_user_ok_balance ex_cooldown_def
      ex_cooldown_verdict)

lemma ex_show_first:
  "show_balance_change rnd ex_last_data (ascii ''agentrouter_main'') b = Inr [] \<and>
   show_balance_change rnd ex_last_data (ascii ''agentrouter_agent'') b = Inr []"
  by (simp add: show_balance_change_def ex_last_data_def ascii_def)

text \<open>
  C9, as stated, fails for an exception that a step absorbs: when the GET of step 1
  raises, the inner handler logs it, the sign-in goes ahead, and the outcome is a success.
\<close>

theorem C9_swallowed_exception_succeeds:
  "http_get ex_world_get_raises anyrouter_self ex_cookies (ascii ''42'') =
     Inl (OtherError (ascii ''timed out'')) \<and>
   checkin_anyrouter ex_rnd ex_world_get_raises ex_checker ex_account 0 =
     (make_result (ascii ''AnyRouter'') (ascii ''main'') True msg_checkin_ok None, ex_checker, [])"
proof -
  have g: "http_get ex_world_get_raises anyrouter_self ex_cookies (ascii ''42'') =
     Inl (OtherError (ascii ''timed out''))"
    by (simp add: ex_world_get_raises_def ex_get_raises_def)
  have p: "http_post ex_world_get_raises anyrouter_sign_in ex_cookies (ascii ''42'') =
     Inr ex_ret_one"
    by (simp add: ex_world_get_raises_def ex_post_ok_def)
  have v: "judge_body r (JObj [(ascii ''ret'', JInt 1)]) None = Inr (True, msg_checkin_ok, None)"
    for r
    by (simp add: judge_body_def is_success_body_def)
  have o: "call_anyrouter_checkin ex_rnd ex_world_get_raises ex_cookies (ascii ''42'') =
      (True, msg_checkin_ok, None)"
    by (simp add: call_anyrouter_checkin_def g p do_anyrouter_checkin_def fetch_balance_def
        ex_ret_one_def v)
  have c: "checkin_anyrouter ex_rnd ex_world_get_raises ex_checker ex_account 0 =
     (make_result (ascii ''AnyRouter'') (ascii ''main'') True msg_checkin_ok None, ex_checker, [])"
  proof -
    have pw: "parse_cookies ex_world_get_raises = ex_parse_cookies"
      "browser ex_world_get_raises = ex_browser"
      by (simp_all add: ex_world_get_raises_def ex_world_def)
    show ?thesis
      by (simp add: ex_anyrouter_checkin [OF pw] o finish_checkin)
  qed
  from g c show ?thesis by simp
qed

text \<open>
  C9 (amended). An exception that leaves the body of an account's check-in, raised by
  cookie parsing, by the browser launch of the WAF harvest or by the credential login,
  is caught by the handler around the body and becomes a failed result, without balance
  and with the ledger untouched, whose message is the check-in-exception prefix followed
  by the first 50 characters of the exception text. An exception raised by the sign-in
  POST (on AgentRouter: other than an HTTP status error) becomes a failed result whose
  message is the request-exception prefix followed by the first 50 characters of its
  text, with no balance. The run yields one result per account, in order, whatever is
  raised.
\<close>

theorem C9_exceptions_become_failures:
  "(get_api_user a \<noteq> [] \<and> parse_cookies w (get_cookies a) = Inl e \<longrightarrow>
      checkin_anyrouter rnd w st a i =
        (make_result (ascii ''AnyRouter'') (name_of (ascii ''AnyRouter'') a i) False
           (msg_checkin_exception @ take 50 (exn_str e)) None, st, [])) \<and>
   (get_api_user a \<noteq> [] \<and> parse_cookies w (get_cookies a) = Inr uc \<and> uc \<noteq> [] \<and>
    browser w anyrouter_login 30000 = LaunchFailed e \<longrightarrow>
      checkin_anyrouter rnd w st a i =
        (make_result (ascii ''AnyRouter'') (name_of (ascii ''AnyRouter'') a i) False
           (msg_checkin_exception @ take 50 (exn_str e)) None, st, [])) \<and>
   (get_api_user a \<noteq> [] \<and> parse_cookies w (get_cookies a) = Inr uc \<and> uc \<noteq> [] \<and>
    get_waf_cookies (browser w) anyrouter_login 30000 = Inr (Some wc) \<and>
    http_post w anyrouter_sign_in (dict_merge wc uc) (get_api_user a) = Inl e \<longrightarrow>
      checkin_anyrouter rnd w st a i =
        (make_result (ascii ''AnyRouter'') (name_of (ascii ''AnyRouter'') a i) False
           (msg_request_exception @ take 50 (exn_str e)) None, st, [])) \<and>
   (get_email a \<noteq> [] \<and> get_password a \<noteq> [] \<and>
    login_agentrouter w (get_email a) (get_password a) = Inl e \<longrightarrow>
      checkin_agentrouter rnd w st a i =
        (make_result (ascii ''AgentRouter'') (name_of (ascii ''AgentRouter'') a i) False
           (msg_checkin_exception @ take 50 (exn_str e)) None, st, [])) \<and>
   (\<not> (get_email a \<noteq> [] \<and> get_password a \<noteq> []) \<and> get_api_user a \<noteq> [] \<and>
    parse_cookies w (get_cookies a) = Inl e \<longrightarrow>
      checkin_agentrouter rnd w st a i =
        (make_result (ascii ''AgentRouter'') (name_of (ascii ''AgentRouter'') a i) False
           (msg_checkin_exception @ take 50 (exn_str e)) None, st, [])) \<and>
   (\<not> (get_email a \<noteq> [] \<and> get_password a \<noteq> []) \<and> get_api_user a \<noteq> [] \<and>
    parse_cookies w (get_cookies a) = Inr uc \<and> uc \<noteq> [] \<and>
    browser w (hd agentrouter_urls) 20000 = LaunchFailed e \<longrightarrow>
      checkin_agentrouter rnd w st a i =
        (make_result (ascii ''AgentRouter'') (name_of (ascii ''AgentRouter'') a i) False
           (msg_checkin_exception @ take 50 (exn_str e)) None, st, [])) \<and>
   (get_email a \<noteq> [] \<and> get_password a \<noteq> [] \<and>
    login_agentrouter w (get_email a) (get_password a) = Inr (Some lr) \<and>
    http_post w agentrouter_sign_in (login_cookies lr) (login_api_user lr) =
      Inl (OtherError t) \<longrightarrow>
      checkin_agentrouter rnd w st a i =
        (make_result (ascii ''AgentRouter'') (name_of (ascii ''AgentRouter'') a i) False
           (msg_request_exception @ take 50 t) None, st, [])) \<and>
   (\<not> (get_email a \<noteq> [] \<and> get_password a \<noteq> []) \<and> get_api_user a \<noteq> [] \<and>
    parse_cookies w (get_cookies a) = Inr uc \<and> uc \<noteq> [] \<and>
    snd (get_waf_cookies_with_fallback (browser w) agentrouter_urls) = Inr waf \<and>
    http_post w agentrouter_sign_in (merge_waf waf uc) (get_api_user a) =
      Inl (OtherError t) \<longrightarrow>
      checkin_agentrouter rnd w st a i =
        (make_result (ascii ''AgentRouter'') (name_of (ascii ''AgentRouter'') a i) False
           (msg_request_exception @ take 50 t) None, st, [])) \<and>
   map name (run_results (run_all rnd c ws wa wg st d any agent)) =
     map (\<lambda>(j, a). name_of (ascii ''AnyRouter'') a j) (enumerate 0 any) @
     map (\<lambda>(j, a). name_of (ascii ''AgentRouter'') a j) (enumerate 0 agent)"
proof (intro conjI impI)
  assume "get_api_user a \<noteq> [] \<and> parse_cookies w (get_cookies a) = Inl e"
  then show "checkin_anyrouter rnd w st a i =
        (make_result (ascii ''AnyRouter'') (name_of (ascii ''AnyRouter'') a i) False
           (msg_checkin_exception @ take 50 (exn_str e)) None, st, [])"
    by (simp add: checkin_anyrouter_def anyrouter_parse_raises handle_raised)
next
  assume "get_api_user a \<noteq> [] \<and> parse_cookies w (get_cookies a) = Inr uc \<and> uc \<noteq> [] \<and>
    browser w anyrouter_login 30000 = LaunchFailed e"
  then show "checkin_anyrouter rnd w st a i =
        (make_result (ascii ''AnyRouter'') (name_of (ascii ''AnyRouter'') a i) False
           (msg_checkin_exception @ take 50 (exn_str e)) None, st, [])"
    by (simp add: checkin_anyrouter_def anyrouter_launch_raises [where uc = uc] handle_raised)
next
  assume "get_api_user a \<noteq> [] \<and> parse_cookies w (get_cookies a) = Inr uc \<and> uc \<noteq> [] \<and>
    get_waf_cookies (browser w) anyrouter_login 30000 = Inr (Some wc) \<and>
    http_post w anyrouter_sign_in (dict_merge wc uc) (get_api_user a) = Inl e"
  then show "checkin_anyrouter rnd w st a i =
        (make_result (ascii ''AnyRouter'') (name_of (ascii ''AnyRouter'') a i) False
           (msg_request_exception @ take 50 (exn_str e)) None, st, [])"
    by (simp add: checkin_anyrouter_def anyrouter_reach [where uc = uc and wc = wc]
        post_raises_anyrouter finish_checkin)
next
  assume "get_email a \<noteq> [] \<and> get_password a \<noteq> [] \<and>
    login_agentrouter w (get_email a) (get_password a) = Inl e"
  then show "checkin_agentrouter rnd w st a i =
        (make_result (ascii ''AgentRouter'') (name_of (ascii ''AgentRouter'') a i) False
           (msg_checkin_exception @ take 50 (exn_str e)) None, st, [])"
    by (simp add: checkin_agentrouter_def agentrouter_raises session_login handle_raised)
next
  assume "\<not> (get_email a \<noteq> [] \<and> get_password a \<noteq> []) \<and> get_api_user a \<noteq> [] \<and>
    parse_cookies w (get_cookies a) = Inl e"
  then show "checkin_agentrouter rnd w st a i =
        (make_result (ascii ''AgentRouter'') (name_of (ascii ''AgentRouter'') a i) False
           (msg_checkin_exception @ take 50 (exn_str e)) None, st, [])"
    by (simp add: checkin_agentrouter_def agentrouter_raises session_cookies handle_raised)
next
  assume a: "\<not> (get_email a \<noteq> [] \<and> get_password a \<noteq> []) \<and> get_api_user a \<noteq> [] \<and>
    parse_cookies w (get_cookies a) = Inr uc \<and> uc \<noteq> [] \<and>
    browser w (hd agentrouter_urls) 20000 = LaunchFailed e"
  then have "snd (get_waf_cookies_with_fallback (browser w) agentrouter_urls) = Inl e"
    by (simp add: agentrouter_urls_def get_waf_cookies_def)
  with a have "agentrouter_session w a (name_of (ascii ''AgentRouter'') a i) = Inl e"
    by (simp add: session_cookies)
  then show "checkin_agentrouter rnd w st a i =
        (make_result (ascii ''AgentRouter'') (name_of (ascii ''AgentRouter'') a i) False
           (msg_checkin_exception @ take 50 (exn_str e)) None, st, [])"
    by (simp add: checkin_agentrouter_def agentrouter_raises handle_raised)
next
  assume a: "get_email a \<noteq> [] \<and> get_password a \<noteq> [] \<and>
    login_agentrouter w (get_email a) (get_password a) = Inr (Some lr) \<and>
    http_post w agentrouter_sign_in (login_cookies lr) (login_api_user lr) =
      Inl (OtherError t)"
  then have "agentrouter_session w a (name_of (ascii ''AgentRouter'') a i) =
      Inr (Inr (login_cookies lr, login_api_user lr))"
    by (simp add: session_login)
  with a show "checkin_agentrouter rnd w st a i =
        (make_result (ascii ''AgentRouter'') (name_of (ascii ''AgentRouter'') a i) False
           (msg_request_exception @ take 50 t) None, st, [])"
    by (simp add: checkin_agentrouter_def agentrouter_reach post_raises_agentrouter
        finish_checkin)
next
  assume a: "\<not> (get_email a \<noteq> [] \<and> get_password a \<noteq> []) \<and> get_api_user a \<noteq> [] \<and>
    parse_cookies w (get_cookies a) = Inr uc \<and> uc \<noteq> [] \<and>
    snd (get_waf_cookies_with_fallback (browser w) agentrouter_urls) = Inr waf \<and>
    http_post w agentrouter_sign_in (merge_waf waf uc) (get_api_user a) =
      Inl (OtherError t)"
  then have "agentrouter_session w a (name_of (ascii ''AgentRouter'') a i) =
      Inr (Inr (merge_waf waf uc, get_api_user a))"
    by (simp add: session_cookies)
  with a show "checkin_agentrouter rnd w st a i =
        (make_result (ascii ''AgentRouter'') (name_of (ascii ''AgentRouter'') a i) False
           (msg_request_exception @ take 50 t) None, st, [])"
    by (simp add: checkin_agentrouter_def agentrouter_reach post_raises_agentrouter
        finish_checkin)
next
  show "map name (run_results (run_all rnd c ws wa wg st d any agent)) =
     map (\<lambda>(j, a). name_of (ascii ''AnyRouter'') a j) (enumerate 0 any) @
     map (\<lambda>(j, a). name_of (ascii ''AgentRouter'') a j) (enumerate 0 agent)"
    by (rule run_all_names)
qed

theorem C9_exceptions_become_failures_witness:
  "get_api_user ex_account \<noteq> [] \<and>
   \<not> (get_email ex_account \<noteq> [] \<and> get_password ex_account \<noteq> []) \<and>
   get_email ex_agent_account \<noteq> [] \<and> get_password ex_agent_account \<noteq> [] \<and>
   parse_cookies ex_world_parse_raises (get_cookies ex_account) =
     Inl (OtherError (ascii ''cookies: unexpected value'')) \<and>
   checkin_anyrouter ex_rnd ex_world_parse_raises ex_checker ex_account 0 =
     (make_result (ascii ''AnyRouter'') (ascii ''main'') False
        (msg_checkin_exception @ ascii ''cookies: unexpected value'') None, ex_checker, []) \<and>
   checkin_agentrouter ex_rnd ex_world_parse_raises ex_checker ex_account 0 =
     (make_result (ascii ''AgentRouter'') (ascii ''main'') False
        (msg_checkin_exception @ ascii ''cookies: unexpected value'') None, ex_checker, []) \<and>
   parse_cookies ex_world_no_browser (get_cookies ex_account) =
     Inr [(ascii ''session'', ascii ''s3cr3t'')] \<and>
   browser ex_world_no_browser anyrouter_login 30000 = LaunchFailed (OtherError ex_launch_error) \<and>
   checkin_anyrouter ex_rnd ex_world_no_browser ex_checker ex_account 0 =
     (make_result (ascii ''AnyRouter'') (ascii ''main'') False
        (msg_checkin_exception @ ascii ''BrowserType.launch_persistent_context: Executable '')
        None, ex_checker, []) \<and>
   browser ex_world_no_browser (hd agentrouter_urls) 20000 =
     LaunchFailed (OtherError ex_launch_error) \<and>
   checkin_agentrouter ex_rnd ex_world_no_browser ex_checker ex_account 0 =
     (make_result (ascii ''AgentRouter'') (ascii ''main'') False
        (msg_checkin_exception @ ascii ''BrowserType.launch_persistent_context: Executable '')
        None, ex_checker, []) \<and>
   get_waf_cookies (browser ex_world_post_raises) anyrouter_login 30000 =
     Inr (Some [(ascii ''acw_tc'', ascii ''xyz'')]) \<and>
   http_post ex_world_post_raises anyrouter_sign_in ex_cookies (ascii ''42'') =
     Inl (OtherError (ascii ''timed out'')) \<and>
   checkin_anyrouter ex_rnd ex_world_post_raises ex_checker ex_account 0 =
     (make_result (ascii ''AnyRouter'') (ascii ''main'') False
        (msg_request_exception @ ascii ''timed out'') None, ex_checker, []) \<and>
   snd (get_waf_cookies_with_fallback (browser ex_world_post_raises) agentrouter_urls) =
     Inr (Some [(ascii ''acw_tc'', ascii ''abc'')]) \<and>
   http_post ex_world_post_raises agentrouter_sign_in
     (merge_waf (Some [(ascii ''acw_tc'', ascii ''abc'')]) [(ascii ''session'', ascii ''s3cr3t'')])
     (ascii ''42'') = Inl (OtherError (ascii ''timed out'')) \<and>
   checkin_agentrouter ex_rnd ex_world_post_raises ex_checker ex_account 0 =
     (make_result (ascii ''AgentRouter'') (ascii ''main'') False
        (msg_request_exception @ ascii ''timed out'') None, ex_checker, []) \<and>
   login_agentrouter ex_world_login_raises (get_email ex_agent_account)
     (get_password ex_agent_account) = Inl (OtherError ex_launch_error) \<and>
   checkin_agentrouter ex_rnd ex_world_login_raises ex_checker ex_agent_account 0 =
     (make_result (ascii ''AgentRouter'') (ascii ''agent'') False
        (msg_checkin_exception @ ascii ''BrowserType.launch_persistent_context: Executable '')
        None, ex_checker, []) \<and>
   login_agentrouter ex_world_login_post_raises (get_email ex_agent_account)
     (get_password ex_agent_account) =
     Inr (Some \<lparr>login_cookies = ex_login_cookies, login_api_user = ascii ''42''\<rparr>) \<and>
   http_post ex_world_login_post_raises agentrouter_sign_in ex_login_cookies (ascii ''42'') =
     Inl (OtherError (ascii ''timed out'')) \<and>
   checkin_agentrouter ex_rnd ex_world_login_post_raises ex_checker ex_agent_account 0 =
     (make_result (ascii ''AgentRouter'') (ascii ''agent'') False
        (msg_request_exception @ ascii ''timed out'') None, ex_checker, [])"
proof -
  let ?uc = "[(ascii ''session'', ascii ''s3cr3t'')]"
  let ?launch = "OtherError ex_launch_error"
  let ?timeout = "OtherError (ascii ''timed out'')"
  let ?bad = "OtherError (ascii ''cookies: unexpected value'')"
  have c: "?uc \<noteq> []" by simp
  have p0: "parse_cookies ex_world_parse_raises (get_cookies ex_account) = Inl ?bad"
    by (simp add: ex_world_parse_raises_def ex_parse_raises_def)
  have p1: "parse_cookies ex_world_no_browser (get_cookies ex_account) = Inr ?uc"
    by (simp add: ex_world_no_browser_def ex_world_def ex_account_fields ex_account_cookies)
  have b1: "browser ex_world_no_browser url t = LaunchFailed ?launch" for url t
    by (simp add: ex_world_no_browser_def ex_no_browser_def)
  have p2: "parse_cookies ex_world_post_raises (get_cookies ex_account) = Inr ?uc"
    by (simp add: ex_world_post_raises_def ex_world_def ex_account_fields ex_account_cookies)
  have b2: "get_waf_cookies (browser ex_world_post_raises) anyrouter_login 30000 =
     Inr (Some [(ascii ''acw_tc'', ascii ''xyz'')])"
    by (simp add: ex_world_post_raises_def ex_world_def ex_anyrouter_login)
  have f2: "snd (get_waf_cookies_with_fallback (browser ex_world_post_raises) agentrouter_urls) =
     Inr (Some [(ascii ''acw_tc'', ascii ''abc'')])"
    by (simp add: ex_world_post_raises_def ex_world_def ex_fallback)
  have h2: "http_post ex_world_post_raises url cs u = Inl ?timeout" for url cs u
    by (simp add: ex_world_post_raises_def ex_post_raises_def)
  have l3: "login_agentrouter ex_world_login_raises (ascii ''a@b.c'') (ascii ''pw'') = Inl ?launch"
    by (simp add: ex_world_login_raises_def ex_login_raises_def)
  have l4: "login_agentrouter ex_world_login_post_raises (ascii ''a@b.c'') (ascii ''pw'') =
     Inr (Some \<lparr>login_cookies = ex_login_cookies, login_api_user = ascii ''42''\<rparr>)"
    by (simp add: ex_world_login_post_raises_def ex_login_ok_def)
  have h4: "http_post ex_world_login_post_raises url cs u = Inl ?timeout" for url cs u
    by (simp add: ex_world_login_post_raises_def ex_post_raises_def)
  have r1: "checkin_anyrouter ex_rnd ex_world_parse_raises ex_checker ex_account 0 =
     (make_result (ascii ''AnyRouter'') (ascii ''main'') False
        (msg_checkin_exception @ ascii ''cookies: unexpected value'') None, ex_checker, [])"
    using p0 C9_exceptions_become_failures [where a = ex_account and w = ex_world_parse_raises
        and e = ?bad and rnd = ex_rnd and st = ex_checker and i = 0]
    by (simp add: ex_account_fields ex_short_errors)
  have r2: "checkin_agentrouter ex_rnd ex_world_parse_raises ex_checker ex_account 0 =
     (make_result (ascii ''AgentRouter'') (ascii ''main'') False
        (msg_checkin_exception @ ascii ''cookies: unexpected value'') None, ex_checker, [])"
    using p0 ex_account_no_login
      C9_exceptions_become_failures [where a = ex_account and w = ex_world_parse_raises
        and e = ?bad and rnd = ex_rnd and st = ex_checker and i = 0]
    by (simp add: ex_account_fields ex_short_errors)
  have r3: "checkin_anyrouter ex_rnd ex_world_no_browser ex_checker ex_account 0 =
     (make_result (ascii ''AnyRouter'') (ascii ''main'') False
        (msg_checkin_exception @ ascii ''BrowserType.launch_persistent_context: Executable '')
        None, ex_checker, [])"
    using p1 b1 c C9_exceptions_become_failures [where a = ex_account and w = ex_world_no_browser
        and e = ?launch and uc = ?uc and rnd = ex_rnd and st = ex_checker and i = 0]
    by (simp add: ex_account_fields ex_launch_error_50)
  have r4: "checkin_agentrouter ex_rnd ex_world_no_browser ex_checker ex_account 0 =
     (make_result (ascii ''AgentRouter'') (ascii ''main'') False
        (msg_checkin_exception @ ascii ''BrowserType.launch_persistent_context: Executable '')
        None, ex_checker, [])"
    using p1 b1 c ex_account_no_login
      C9_exceptions_become_failures [where a = ex_account and w = ex_world_no_browser
        and e = ?launch and uc = ?uc and rnd = ex_rnd and st = ex_checker and i = 0]
    by (simp add: ex_account_fields ex_launch_error_50)
  have r5: "checkin_anyrouter ex_rnd ex_world_post_raises ex_checker ex_account 0 =
     (make_result (ascii ''AnyRouter'') (ascii ''main'') False
        (msg_request_exception @ ascii ''timed out'') None, ex_checker, [])"
    using p2 b2 h2 c C9_exceptions_become_failures [where a = ex_account and w = ex_world_post_raises
        and e = ?timeout and uc = ?uc and wc = "[(ascii ''acw_tc'', ascii ''xyz'')]"
        and rnd = ex_rnd and st = ex_checker and i = 0]
    by (simp add: ex_account_fields ex_short_errors)
  have r6: "checkin_agentrouter ex_rnd ex_world_post_raises ex_checker ex_account 0 =
     (make_result (ascii ''AgentRouter'') (ascii ''main'') False
        (msg_request_exception @ ascii ''timed out'') None, ex_checker, [])"
    using p2 f2 h2 c ex_account_no_login
      C9_exceptions_become_failures [where a = ex_account and w = ex_world_post_raises
        and uc = ?uc and waf = "Some [(ascii ''acw_tc'', ascii ''abc'')]"
        and t = "ascii ''timed out''" and rnd = ex_rnd and st = ex_checker and i = 0]
    by (simp add: ex_account_fields ex_short_errors)
  have r7: "checkin_agentrouter ex_rnd ex_world_login_raises ex_checker ex_agent_account 0 =
     (make_result (ascii ''AgentRouter'') (ascii ''agent'') False
        (msg_checkin_exception @ ascii ''BrowserType.launch_persistent_context: Executable '')
        None, ex_checker, [])"
    using l3 C9_exceptions_become_failures [where a = ex_agent_account
        and w = ex_world_login_raises and e = ?launch and rnd = ex_rnd and st = ex_checker
        and i = 0]
    by (simp add: ex_agent_account_fields ex_launch_error_50)
  have r8: "checkin_agentrouter ex_rnd ex_world_login_post_raises ex_checker ex_agent_account 0 =
     (make_result (ascii ''AgentRouter'') (ascii ''agent'') False
        (msg_request_exception @ ascii ''timed out'') None, ex_checker, [])"
    using l4 h4 C9_exceptions_become_failures [where a = ex_agent_account
        and w = ex_world_login_post_raises
        and lr = "\<lparr>login_cookies = ex_login_cookies, login_api_user = ascii ''42''\<rparr>"
        and t = "ascii ''timed out''" and rnd = ex_rnd and st = ex_checker and i = 0]
    by (simp add: ex_agent_account_fields ex_short_errors)
  from p0 p1 b1 b2 f2 h2 l3 l4 h4 ex_account_no_login r1 r2 r3 r4 r5 r6 r7 r8 show ?thesis
    by (simp add: ex_account_fields ex_agent_account_fields)
qed

text \<open>
  C10, as stated, fails when the sign-in POST raises: step 1 has read a balance, but the
  handler returns no balance, so nothing is stored for the account.
\<close>

theorem C10_post_exception_drops_balance:
  "fetch_balance ex_rnd (http_get ex_world_post_raises anyrouter_self ex_cookies (ascii ''42'')) =
     Some \<lparr>quota = Fin 10, used = Fin 2\<rparr> \<and>
   http_post ex_world_post_raises anyrouter_sign_in ex_cookies (ascii ''42'') =
     Inl (OtherError (ascii ''timed out'')) \<and>
   checkin_anyrouter ex_rnd ex_world_post_raises ex_checker ex_account 0 =
     (make_result (ascii ''AnyRouter'') (ascii ''main'') False
        (msg_request_exception @ ascii ''timed out'') None, ex_checker, []) \<and>
   map_of (current_balances ex_checker) (ascii ''anyrouter_main'') = None"
proof -
  have g: "http_get ex_world_post_raises anyrouter_self ex_cookies (ascii ''42'') = Inr ex_user_ok"
    by (simp add: ex_world_post_raises_def ex_world_def ex_get_def)
  have p: "http_post ex_world_post_raises anyrouter_sign_in ex_cookies (ascii ''42'') =
     Inl (OtherError (ascii ''timed out''))"
    by (simp add: ex_world_post_raises_def ex_post_raises_def)
  have l: "take 50 (ascii ''timed out'') = ascii ''timed out''" by (simp add: ascii_def)
  have o: "call_anyrouter_checkin ex_rnd ex_world_post_raises ex_cookies (ascii ''42'') =
      (False, msg_request_exception @ ascii ''timed out'', None)"
    by (simp add: post_raises_anyrouter [OF p] l)
  have pw: "parse_cookies ex_world_post_raises = ex_parse_cookies"
    "browser ex_world_post_raises = ex_browser"
    by (simp_all add: ex_world_post_raises_def ex_world_def)
  have c: "checkin_anyrouter ex_rnd ex_world_post_raises ex_checker ex_account 0 =
     (make_result (ascii ''AnyRouter'') (ascii ''main'') False
        (msg_request_exception @ ascii ''timed out'') None, ex_checker, [])"
    by (simp add: ex_anyrouter_checkin [OF pw] o finish_checkin)
  have e: "map_of (current_balances ex_checker) (ascii ''anyrouter_main'') = None"
    by (simp add: ex_checker_def)
  from g p c e show ?thesis by (simp add: ex_user_ok_balance)
qed

text \<open>
  C10 (amended). Whenever the sign-in is reached and the check-in function returns a
  balance, the current-run map gets that balance under the key made of the lower-case
  platform name, an underscore and the account name, and the change against the
  previous run is then shown, whether or not the outcome is a success: the result
  carries the outcome and the balance. If showing the change raises, on a previous
  entry that is not a dict of numbers, the result is a failure without balance and the
  stored entry stays. An outcome without balance changes nothing. The balance returned
  is the one of step 1 whenever the sign-in POST returns a response (on AgentRouter:
  with a status other than 200, or with status 200 and a JSON object as body).
\<close>

theorem C10_returned_balance_recorded:
  "(get_api_user a \<noteq> [] \<and> parse_cookies w (get_cookies a) = Inr uc \<and> uc \<noteq> [] \<and>
    get_waf_cookies (browser w) anyrouter_login 30000 = Inr (Some wc) \<and>
    call_anyrouter_checkin rnd w (dict_merge wc uc) (get_api_user a) = (succ, msg, bal) \<longrightarrow>
      (let p = ascii ''AnyRouter''; n = name_of p a i; key = ascii ''anyrouter_'' @ n
       in checkin_anyrouter rnd w st a i =
            (case bal of
               None \<Rightarrow> (make_result p n succ msg None, st, [])
             | Some b \<Rightarrow>
                 (case show_balance_change rnd (last_balance_data st) key b of
                    Inr lines \<Rightarrow>
                      (make_result p n succ msg (Some b),
                       st\<lparr>current_balances := AList.update key b (current_balances st)\<rparr>,
                       lines)
                  | Inl e \<Rightarrow>
                      (make_result p n False (msg_checkin_exception @ take 50 (exn_str e)) None,
                       st\<lparr>current_balances := AList.update key b (current_balances st)\<rparr>,
                       []))))) \<and>
   (get_email a \<noteq> [] \<and> get_password a \<noteq> [] \<and>
    login_agentrouter w (get_email a) (get_password a) = Inr (Some lr) \<and>
    call_agentrouter_checkin rnd w (login_cookies lr) (login_api_user lr) = (succ, msg, bal) \<longrightarrow>
      (let p = ascii ''AgentRouter''; n = name_of p a i; key = ascii ''agentrouter_'' @ n
       in checkin_agentrouter rnd w st a i =
            (case bal of
               None \<Rightarrow> (make_result p n succ msg None, st, [])
             | Some b \<Rightarrow>
                 (case show_balance_change rnd (last_balance_data st) key b of
                    Inr lines \<Rightarrow>
                      (make_result p n succ msg (Some b),
                       st\<lparr>current_balances := AList.update key b (current_balances st)\<rparr>,
                       lines)
                  | Inl e \<Rightarrow>
                      (make_result p n False (msg_checkin_exception @ take 50 (exn_str e)) None,
                       st\<lparr>current_balances := AList.update key b (current_balances st)\<rparr>,
                       []))))) \<and>
   (\<not> (get_email a \<noteq> [] \<and> get_password a \<noteq> []) \<and> get_api_user a \<noteq> [] \<and>
    parse_cookies w (get_cookies a) = Inr uc \<and> uc \<noteq> [] \<and>
    snd (get_waf_cookies_with_fallback (browser w) agentrouter_urls) = Inr waf \<and>
    call_agentrouter_checkin rnd w (merge_waf waf uc) (get_api_user a) = (succ, msg, bal) \<longrightarrow>
      (let p = ascii ''AgentRouter''; n = name_of p a i; key = ascii ''agentrouter_'' @ n
       in checkin_agentrouter rnd w st a i =
            (case bal of
               None \<Rightarrow> (make_result p n succ msg None, st, [])
             | Some b \<Rightarrow>
                 (case show_balance_change rnd (last_balance_data st) key b of
                    Inr lines \<Rightarrow>
                      (make_result p n succ msg (Some b),
                       st\<lparr>current_balances := AList.update key b (current_balances st)\<rparr>,
                       lines)
                  | Inl e \<Rightarrow>
                      (make_result p n False (msg_checkin_exception @ take 50 (exn_str e)) None,
                       st\<lparr>current_balances := AList.update key b (current_balances st)\<rparr>,
                       []))))) \<and>
   map_of (AList.update key b (current_balances st)) key = Some b \<and>
   snd (snd (do_anyrouter_checkin rnd repr ur (Inr resp))) = fetch_balance rnd ur \<and>
   (status_code resp \<noteq> 200 \<longrightarrow>
      snd (snd (do_agentrouter_checkin rnd repr ur (Inr resp))) = fetch_balance rnd ur) \<and>
   (status_code resp = 200 \<and> resp_json resp = Inr (JObj kvs) \<longrightarrow>
      snd (snd (do_agentrouter_checkin rnd repr ur (Inr resp))) = fetch_balance rnd ur)"
proof (intro conjI impI)
  assume "get_api_user a \<noteq> [] \<and> parse_cookies w (get_cookies a) = Inr uc \<and> uc \<noteq> [] \<and>
    get_waf_cookies (browser w) anyrouter_login 30000 = Inr (Some wc) \<and>
    call_anyrouter_checkin rnd w (dict_merge wc uc) (get_api_user a) = (succ, msg, bal)"
  then show "let p = ascii ''AnyRouter''; n = name_of p a i; key = ascii ''anyrouter_'' @ n
       in checkin_anyrouter rnd w st a i =
            (case bal of
               None \<Rightarrow> (make_result p n succ msg None, st, [])
             | Some b \<Rightarrow>
                 (case show_balance_change rnd (last_balance_data st) key b of
                    Inr lines \<Rightarrow>
                      (make_result p n succ msg (Some b),
                       st\<lparr>current_balances := AList.update key b (current_balances st)\<rparr>,
                       lines)
                  | Inl e \<Rightarrow>
                      (make_result p n False (msg_checkin_exception @ take 50 (exn_str e)) None,
                       st\<lparr>current_balances := AList.update key b (current_balances st)\<rparr>,
                       [])))"
    by (simp add: checkin_anyrouter_def Let_def anyrouter_reach [where uc = uc and wc = wc]
        finish_checkin)
next
  assume a: "get_email a \<noteq> [] \<and> get_password a \<noteq> [] \<and>
    login_agentrouter w (get_email a) (get_password a) = Inr (Some lr) \<and>
    call_agentrouter_checkin rnd w (login_cookies lr) (login_api_user lr) = (succ, msg, bal)"
  then have "agentrouter_session w a (name_of (ascii ''AgentRouter'') a i) =
      Inr (Inr (login_cookies lr, login_api_user lr))"
    by (simp add: session_login)
  with a show "let p = ascii ''AgentRouter''; n = name_of p a i; key = ascii ''agentrouter_'' @ n
       in checkin_agentrouter rnd w st a i =
            (case bal of
               None \<Rightarrow> (make_result p n succ msg None, st, [])
             | Some b \<Rightarrow>
                 (case show_balance_change rnd (last_balance_data st) key b of
                    Inr lines \<Rightarrow>
                      (make_result p n succ msg (Some b),
                       st\<lparr>current_balances := AList.update key b (current_balances st)\<rparr>,
                       lines)
                  | Inl e \<Rightarrow>
                      (make_result p n False (msg_checkin_exception @ take 50 (exn_str e)) None,
                       st\<lparr>current_balances := AList.update key b (current_balances st)\<rparr>,
                       [])))"
    by (simp add: checkin_agentrouter_def Let_def agentrouter_reach finish_checkin)
next
  assume a: "\<not> (get_email a \<noteq> [] \<and> get_password a \<noteq> []) \<and> get_api_user a \<noteq> [] \<and>
    parse_cookies w (get_cookies a) = Inr uc \<and> uc \<noteq> [] \<and>
    snd (get_waf_cookies_with_fallback (browser w) agentrouter_urls) = Inr waf \<and>
    call_agentrouter_checkin rnd w (merge_waf waf uc) (get_api_user a) = (succ, msg, bal)"
  then have "agentrouter_session w a (name_of (ascii ''AgentRouter'') a i) =
      Inr (Inr (merge_waf waf uc, get_api_user a))"
    by (simp add: session_cookies)
  with a show "let p = ascii ''AgentRouter''; n = name_of p a i; key = ascii ''agentrouter_'' @ n
       in checkin_agentrouter rnd w st a i =
            (case bal of
               None \<Rightarrow> (make_result p n succ msg None, st, [])
             | Some b \<Rightarrow>
                 (case show_balance_change rnd (last_balance_data st) key b of
                    Inr lines \<Rightarrow>
                      (make_result p n succ msg (Some b),
                       st\<lparr>current_balances := AList.update key b (current_balances st)\<rparr>,
                       lines)
                  | Inl e \<Rightarrow>
                      (make_result p n False (msg_checkin_exception @ take 50 (exn_str e)) None,
                       st\<lparr>current_balances := AList.update key b (current_balances st)\<rparr>,
                       [])))"
    by (simp add: checkin_agentrouter_def Let_def agentrouter_reach finish_checkin)
next
  show "map_of (AList.update key b (current_balances st)) key = Some b"
    by (simp add: update_conv')
next
  show "snd (snd (do_anyrouter_checkin rnd repr ur (Inr resp))) = fetch_balance rnd ur"
    by (rule anyrouter_post_returns)
next
  assume "status_code resp \<noteq> 200"
  then show "snd (snd (do_agentrouter_checkin rnd repr ur (Inr resp))) = fetch_balance rnd ur"
    by (rule agentrouter_post_returns)
next
  assume "status_code resp = 200 \<and> resp_json resp = Inr (JObj kvs)"
  then show "snd (snd (do_agentrouter_checkin rnd repr ur (Inr resp))) = fetch_balance rnd ur"
    by (simp add: agentrouter_post_object)
qed

theorem C10_returned_balance_recorded_witness:
  "get_api_user ex_account \<noteq> [] \<and>
   \<not> (get_email ex_account \<noteq> [] \<and> get_password ex_account \<noteq> []) \<and>
   get_email ex_agent_account \<noteq> [] \<and> get_password ex_agent_account \<noteq> [] \<and>
   parse_cookies ex_world (get_cookies ex_account) = Inr [(ascii ''session'', ascii ''s3cr3t'')] \<and>
   get_waf_cookies (browser ex_world) anyrouter_login 30000 =
     Inr (Some [(ascii ''acw_tc'', ascii ''xyz'')]) \<and>
   call_anyrouter_checkin ex_rnd ex_world ex_cookies (ascii ''42'') =
     (False, msg_checkin_failed @ ascii ''cooldown'', Some \<lparr>quota = Fin 10, used = Fin 2\<rparr>) \<and>
   checkin_anyrouter ex_rnd ex_world ex_checker ex_account 0 =
     (make_result (ascii ''AnyRouter'') (ascii ''main'') False
        (msg_checkin_failed @ ascii ''cooldown'') (Some \<lparr>quota = Fin 10, used = Fin 2\<rparr>),
      ex_checker\<lparr>current_balances :=
                   [(ascii ''anyrouter_main'', \<lparr>quota = Fin 10, used = Fin 2\<rparr>)]\<rparr>,
      []) \<and>
   checkin_anyrouter ex_rnd ex_world ex_checker_null ex_account 0 =
     (make_result (ascii ''AnyRouter'') (ascii ''main'') False
        (msg_checkin_exception @ ascii ''unsupported operand type(s) for +: '' @ [39] @
         ascii ''NoneType'' @ [39] @ ascii '' and '') None,
      ex_checker_null\<lparr>current_balances :=
                        [(ascii ''anyrouter_main'', \<lparr>quota = Fin 10, used = Fin 2\<rparr>)]\<rparr>,
      []) \<and>
   login_agentrouter ex_world_login (get_email ex_agent_account)
     (get_password ex_agent_account) =
     Inr (Some \<lparr>login_cookies = ex_login_cookies, login_api_user = ascii ''42''\<rparr>) \<and>
   call_agentrouter_checkin ex_rnd ex_world_login ex_login_cookies (ascii ''42'') =
     (False, msg_checkin_failed @ ascii ''cooldown'', Some \<lparr>quota = Fin 10, used = Fin 2\<rparr>) \<and>
   checkin_agentrouter ex_rnd ex_world_login ex_checker ex_agent_account 0 =
     (make_result (ascii ''AgentRouter'') (ascii ''agent'') False
        (msg_checkin_failed @ ascii ''cooldown'') (Some \<lparr>quota = Fin 10, used = Fin 2\<rparr>),
      ex_checker\<lparr>current_balances :=
                   [(ascii ''agentrouter_agent'', \<lparr>quota = Fin 10, used = Fin 2\<rparr>)]\<rparr>,
      []) \<and>
   snd (get_waf_cookies_with_fallback (browser ex_world) agentrouter_urls) =
     Inr (Some [(ascii ''acw_tc'', ascii ''abc'')]) \<and>
   checkin_agentrouter ex_rnd ex_world ex_checker ex_account 0 =
     (make_result (ascii ''AgentRouter'') (ascii ''main'') False
        (msg_checkin_failed @ ascii ''cooldown'') (Some \<lparr>quota = Fin 10, used = Fin 2\<rparr>),
      ex_checker\<lparr>current_balances :=
                   [(ascii ''agentrouter_main'', \<lparr>quota = Fin 10, used = Fin 2\<rparr>)]\<rparr>,
      []) \<and>
   status_code ex_not_found \<noteq> 200 \<and>
   snd (snd (do_agentrouter_checkin ex_rnd ex_repr (Inr ex_user_ok) (Inr ex_not_found))) =
     Some \<lparr>quota = Fin 10, used = Fin 2\<rparr> \<and>
   status_code ex_cooldown = 200 \<and>
   snd (snd (do_agentrouter_checkin ex_rnd ex_repr (Inr ex_user_ok) (Inr ex_cooldown))) =
     Some \<lparr>quota = Fin 10, used = Fin 2\<rparr>"
proof -
  let ?uc = "[(ascii ''session'', ascii ''s3cr3t'')]"
  let ?bal = "\<lparr>quota = Fin 10, used = Fin 2\<rparr>"
  let ?msg = "msg_checkin_failed @ ascii ''cooldown''"
  have c: "?uc \<noteq> []" by simp
  have p: "parse_cookies ex_world (get_cookies ex_account) = Inr ?uc"
    by (simp add: ex_world_def ex_account_fields ex_account_cookies)
  have b: "get_waf_cookies (browser ex_world) anyrouter_login 30000 =
     Inr (Some [(ascii ''acw_tc'', ascii ''xyz'')])"
    by (simp add: ex_world_def ex_anyrouter_login)
  have f: "snd (get_waf_cookies_with_fallback (browser ex_world) agentrouter_urls) =
     Inr (Some [(ascii ''acw_tc'', ascii ''abc'')])"
    by (simp add: ex_world_def ex_fallback)
  have k: "ascii ''anyrouter_'' @ ascii ''main'' = ascii ''anyrouter_main'' \<and>
           ascii ''agentrouter_'' @ ascii ''main'' = ascii ''agentrouter_main'' \<and>
           ascii ''agentrouter_'' @ ascii ''agent'' = ascii ''agentrouter_agent''"
    by (simp add: ascii_def)
  have s1: "last_balance_data ex_checker = ex_last_data \<and> current_balances ex_checker = []"
    by (simp add: ex_checker_def)
  have s2: "last_balance_data ex_checker_null = ex_last_data_null \<and>
            current_balances ex_checker_null = []"
    by (simp add: ex_checker_null_def)
  have t: "take 50 ex_type_error =
           ascii ''unsupported operand type(s) for +: '' @ [39] @ ascii ''NoneType'' @ [39] @
           ascii '' and ''"
    by (simp add: ex_type_error_def ascii_def)
  have l: "login_agentrouter ex_world_login (ascii ''a@b.c'') (ascii ''pw'') =
     Inr (Some \<lparr>login_cookies = ex_login_cookies, login_api_user = ascii ''42''\<rparr>)"
    by (simp add: ex_world_login_def ex_login_ok_def)
  have g1: "call_agentrouter_checkin ex_rnd ex_world_login cs u = (False, ?msg, Some ?bal)"
    for cs u
    by (rule ex_agent_call) (simp_all add: ex_world_login_def ex_world_def)
  have g2: "call_agentrouter_checkin ex_rnd ex_world cs u = (False, ?msg, Some ?bal)" for cs u
    by (rule ex_agent_call) (simp_all add: ex_world_def)
  have r1: "checkin_anyrouter ex_rnd ex_world ex_checker ex_account 0 =
     (make_result (ascii ''AnyRouter'') (ascii ''main'') False ?msg (Some ?bal),
      ex_checker\<lparr>current_balances := [(ascii ''anyrouter_main'', ?bal)]\<rparr>, [])"
    using p b c ex_world_call
      C10_returned_balance_recorded [where a = ex_account and w = ex_world
        and uc = ?uc and wc = "[(ascii ''acw_tc'', ascii ''xyz'')]" and rnd = ex_rnd
        and succ = False and msg = ?msg and bal = "Some ?bal" and st = ex_checker and i = 0]
    by (simp add: ex_account_fields ex_merged Let_def k s1 ex_show_same)
  have r2: "checkin_anyrouter ex_rnd ex_world ex_checker_null ex_account 0 =
     (make_result (ascii ''AnyRouter'') (ascii ''main'') False
        (msg_checkin_exception @ ascii ''unsupported operand type(s) for +: '' @ [39] @
         ascii ''NoneType'' @ [39] @ ascii '' and '') None,
      ex_checker_null\<lparr>current_balances := [(ascii ''anyrouter_main'', ?bal)]\<rparr>, [])"
    using p b c ex_world_call
      C10_returned_balance_recorded [where a = ex_account and w = ex_world
        and uc = ?uc and wc = "[(ascii ''acw_tc'', ascii ''xyz'')]" and rnd = ex_rnd
        and succ = False and msg = ?msg and bal = "Some ?bal" and st = ex_checker_null
        and i = 0]
    by (simp add: ex_account_fields ex_merged Let_def k s2 ex_show_null t)
  have r3: "checkin_agentrouter ex_rnd ex_world_login ex_checker ex_agent_account 0 =
     (make_result (ascii ''AgentRouter'') (ascii ''agent'') False ?msg (Some ?bal),
      ex_checker\<lparr>current_balances := [(ascii ''agentrouter_agent'', ?bal)]\<rparr>, [])"
    using l g1
      C10_returned_balance_recorded [where a = ex_agent_account and w = ex_world_login
        and lr = "\<lparr>login_cookies = ex_login_cookies, login_api_user = ascii ''42''\<rparr>"
        and rnd = ex_rnd and succ = False and msg = ?msg and bal = "Some ?bal"
        and st = ex_checker and i = 0]
    by (simp add: ex_agent_account_fields Let_def k s1 ex_show_first)
  have r4: "checkin_agentrouter ex_rnd ex_world ex_checker ex_account 0 =
     (make_result (ascii ''AgentRouter'') (ascii ''main'') False ?msg (Some ?bal),
      ex_checker\<lparr>current_balances := [(ascii ''agentrouter_main'', ?bal)]\<rparr>, [])"
    using p f c g2 ex_account_no_login
      C10_returned_balance_recorded [where a = ex_account and w = ex_world
        and uc = ?uc and waf = "Some [(ascii ''acw_tc'', ascii ''abc'')]" and rnd = ex_rnd
        and succ = False and msg = ?msg and bal = "Some ?bal" and st = ex_checker and i = 0]
    by (simp add: ex_account_fields Let_def k s1 ex_show_first)
  have n: "status_code ex_not_found \<noteq> 200" by (simp add: ex_not_found_def)
  have r5: "snd (snd (do_agentrouter_checkin ex_rnd ex_repr (Inr ex_user_ok) (Inr ex_not_found))) =
     Some ?bal"
    using n C10_returned_balance_recorded [where resp = ex_not_found and rnd = ex_rnd
        and repr = ex_repr and ur = "Inr ex_user_ok"]
    by (simp add: ex_user_ok_balance)
  have o: "status_code ex_cooldown = 200 \<and>
     resp_json ex_cooldown =
       Inr (JObj [(ascii ''code'', JInt 5), (ascii ''msg'', JStr (ascii ''cooldown''))])"
    by (simp add: ex_cooldown_def)
  have r6: "snd (snd (do_agentrouter_checkin ex_rnd ex_repr (Inr ex_user_ok) (Inr ex_cooldown))) =
     Some ?bal"
    using o C10_returned_balance_recorded [where resp = ex_cooldown and rnd = ex_rnd
        and repr = ex_repr and ur = "Inr ex_user_ok"
        and kvs = "[(ascii ''code'', JInt 5), (ascii ''msg'', JStr (ascii ''cooldown''))]"]
    by (simp add: ex_user_ok_balance)
  from p b f l g1 ex_world_call ex_account_no_login n o r1 r2 r3 r4 r5 r6 show ?thesis
    by (simp add: ex_account_fields ex_agent_account_fields)
qed

section \<open>The whole run\<close>

text \<open>
  C3, as stated, fails: with a single AgentRouter account the run sleeps after it, where
  the specification has no delay after the last account of the last platform.
\<close>

theorem C3_delay_after_last_account:
  "filter is_pacing
     (run_events (run_all ex_rnd ex_codec ex_writes ex_worlds ex_worlds ex_checker ex_disk
                    [] [ex_account])) =
     [Processing (ascii ''AgentRouter'') 0, Sleep 2] \<and>
   spec_pacing 0 1 = [Processing (ascii ''AgentRouter'') 0]"
  by (simp add: run_all_pacing spec_pacing_def paced_def)

text \<open>
  C3 (amended). \<open>run_all\<close> processes the AnyRouter accounts and then the AgentRouter
  accounts, each list in its order, and sleeps two seconds after every account, the
  last account of the last platform included.
\<close>

theorem C3_run_all_pacing:
  "map name (run_results (run_all rnd c ws wa wg st d any agent)) =
     map (\<lambda>(j, a). name_of (ascii ''AnyRouter'') a j) (enumerate 0 any) @
     map (\<lambda>(j, a). name_of (ascii ''AgentRouter'') a j) (enumerate 0 agent) \<and>
   filter is_pacing (run_events (run_all rnd c ws wa wg st d any agent)) =
     concat (map (\<lambda>j. [Processing (ascii ''AnyRouter'') j, Sleep 2]) [0..<length any]) @
     concat (map (\<lambda>j. [Processing (ascii ''AgentRouter'') j, Sleep 2]) [0..<length agent])"
  by (simp add: run_all_names run_all_pacing paced_def)

end
